theory Spec2Isabelle
  imports Complex_Main "HOL-Library.Multiset"
begin

section \<open>Python and numpy conventions\<close>

text \<open>
  The extraction engine of specter (\<^verbatim>\<open>ex2d_patch_gpu.py\<close>, the iterative-solve
  variant, and \<^verbatim>\<open>ex2d_patch_gpu_matrix.py\<close>, the direct-solve variant) is embedded
  function by function. Python integers are \<^typ>\<open>int\<close>, a 1D array is a list, a 2D array
  a list of rows. An exception raised by the source is the \<open>Inl\<close> branch of the result,
  with the exception class and its message.
\<close>

datatype py_error =
    ValueError string | IndexError string | RuntimeError string | OverflowError string
  | UnboundLocalError string

section \<open>split_bundle\<close>

text \<open>
  \<^verbatim>\<open>np.array_split(np.arange(bundlesize), n)\<close>, read for the lengths of its pieces:
  numpy raises ValueError unless the number of sections is positive, and otherwise
  gives \<open>extras\<close> pieces of length \<open>neach + 1\<close> followed by pieces of length \<open>neach\<close>,
  where \<open>(neach, extras) = divmod(ntotal, nsections)\<close>.
\<close>

definition array_split_sizes :: "int \<Rightarrow> int \<Rightarrow> py_error + int list" where
  "array_split_sizes ntotal nsections =
     (if nsections \<le> 0 then Inl (ValueError ''number sections must be larger than 0.'')
      else let neach = ntotal div nsections; extras = ntotal mod nsections
           in Inr (replicate (nat extras) (neach + 1) @
                   replicate (nat (nsections - extras)) neach))"

text \<open>
  The rearranging loop \<^verbatim>\<open>while i < n-1\<close>: one left-to-right pass that swaps
  neighbours when the left one is larger.
\<close>

function swap_pass :: "nat \<Rightarrow> int \<Rightarrow> int list \<Rightarrow> int list" where
  "swap_pass i n xs =
     (if int i < n - 1
      then swap_pass (Suc i) n
             (if xs ! i > xs ! Suc i then xs[Suc i := xs ! i, i := xs ! Suc i] else xs)
      else xs)"
  by pat_completeness auto
termination
  by (relation "measure (\<lambda>(i, n, xs). nat (n - 1 - int i))") auto

declare swap_pass.simps [simp del]

text \<open>The non-overlapping index arrays: \<^verbatim>\<open>np.arange(imin, imin+nsub)\<close> for each size.\<close>

fun populate :: "int \<Rightarrow> int list \<Rightarrow> int list list" where
  "populate imin [] = []"
| "populate imin (nsub # rest) = [imin..imin + nsub - 1] # populate (imin + nsub) rest"

text \<open>
  One overlapping index array. \<^verbatim>\<open>ii[0]\<close> and \<^verbatim>\<open>ii[-1]\<close> raise IndexError on an
  empty array.
\<close>

definition extract_one :: "int \<Rightarrow> int list \<Rightarrow> py_error + int list" where
  "extract_one bundlesize ii =
     (if ii = [] then Inl (IndexError ''index 0 is out of bounds for axis 0 with size 0'')
      else let ipre = (if hd ii > 0 then [hd ii - 1] else []);
               ipost = (if last ii < bundlesize - 1 then [last ii + 1] else [])
           in Inr (ipre @ ii @ ipost))"

fun extract_all :: "int \<Rightarrow> int list list \<Rightarrow> py_error + int list list" where
  "extract_all bundlesize [] = Inr []"
| "extract_all bundlesize (ii # rest) =
     (case extract_one bundlesize ii of
        Inl e \<Rightarrow> Inl e
      | Inr x \<Rightarrow> (case extract_all bundlesize rest of
                    Inl e \<Rightarrow> Inl e
                  | Inr xs \<Rightarrow> Inr (x # xs)))"

definition split_bundle :: "int \<Rightarrow> int \<Rightarrow> py_error + (int list list \<times> int list list)" where
  "split_bundle bundlesize n =
     (if n > bundlesize then Inl (ValueError ''n should be less or equal to bundlesize'')
      else case array_split_sizes (max 0 bundlesize) n of
             Inl e \<Rightarrow> Inl e
           | Inr sizes \<Rightarrow>
               let n_per_subbundle = swap_pass 0 n sizes;
                   subbundles = populate 0 n_per_subbundle
               in (case extract_all bundlesize subbundles of
                     Inl e \<Rightarrow> Inl e
                   | Inr extract_subbundles \<Rightarrow> Inr (subbundles, extract_subbundles)))"

section \<open>Array values\<close>

text \<open>
  A 64-bit float is a finite real, an infinity or NaN. The infinities and NaN follow
  IEEE 754, which numpy applies with a warning instead of an exception: \<open>1/0 = inf\<close>,
  \<open>0 * inf = nan\<close>, \<open>inf - inf = nan\<close>, \<open>sqrt\<close> of a negative number is \<open>nan\<close>, every
  comparison with \<open>nan\<close> is false. Arithmetic on finite values is exact: rounding,
  overflow, underflow and the sign of zero are not modelled. The model therefore gives
  the control flow, the shapes, the exceptions and the formulas of the code; what follows
  below uses it for those, and for values only where every intermediate result is a
  small integer that binary64 holds exactly. Whether a computed value lies within a
  tolerance of another, and whether an intermediate result overflows or underflows, is
  not settled by it.
\<close>

datatype fl = Fin real | PInf | NInf | NaN

type_synonym vec = "real list"
type_synonym mat = "real list list"
type_synonym fvec = "fl list"
type_synonym fmat = "fl list list"

fun fadd :: "fl \<Rightarrow> fl \<Rightarrow> fl" where
  "fadd (Fin a) (Fin b) = Fin (a + b)"
| "fadd NaN y = NaN"
| "fadd x NaN = NaN"
| "fadd PInf NInf = NaN"
| "fadd NInf PInf = NaN"
| "fadd PInf y = PInf"
| "fadd x PInf = PInf"
| "fadd NInf y = NInf"
| "fadd x NInf = NInf"

fun fl_sign :: "fl \<Rightarrow> real" where
  "fl_sign (Fin a) = sgn a"
| "fl_sign PInf = 1"
| "fl_sign NInf = - 1"
| "fl_sign NaN = 0"

definition inf_of_sign :: "real \<Rightarrow> fl" where
  "inf_of_sign s = (if s > 0 then PInf else if s < 0 then NInf else NaN)"

fun fmul :: "fl \<Rightarrow> fl \<Rightarrow> fl" where
  "fmul (Fin a) (Fin b) = Fin (a * b)"
| "fmul NaN y = NaN"
| "fmul x NaN = NaN"
| "fmul x y = inf_of_sign (fl_sign x * fl_sign y)"

text \<open>\<^verbatim>\<open>x**(-1)\<close> and \<^verbatim>\<open>1.0/x\<close> on numpy floats.\<close>

fun frecip :: "fl \<Rightarrow> fl" where
  "frecip (Fin a) = (if a = 0 then PInf else Fin (1 / a))"
| "frecip PInf = Fin 0"
| "frecip NInf = Fin 0"
| "frecip NaN = NaN"

fun fsqrt :: "fl \<Rightarrow> fl" where
  "fsqrt (Fin a) = (if a < 0 then NaN else Fin (sqrt a))"
| "fsqrt PInf = PInf"
| "fsqrt NInf = NaN"
| "fsqrt NaN = NaN"

text \<open>The comparison \<^verbatim>\<open>x > y\<close>.\<close>

fun fgt :: "fl \<Rightarrow> fl \<Rightarrow> bool" where
  "fgt (Fin a) (Fin b) = (a > b)"
| "fgt NaN y = False"
| "fgt x NaN = False"
| "fgt PInf PInf = False"
| "fgt PInf y = True"
| "fgt x PInf = False"
| "fgt NInf y = False"
| "fgt x NInf = True"

text \<open>\<^verbatim>\<open>np.sum\<close> of a 1D array; the sum of an empty array is 0.\<close>

definition fsum :: "fvec \<Rightarrow> fl" where
  "fsum xs = foldr fadd xs (Fin 0)"

text \<open>\<^verbatim>\<open>np.max\<close> raises ValueError on an empty array.\<close>

definition np_max :: "vec \<Rightarrow> py_error + real" where
  "np_max xs =
     (if xs = []
      then Inl (ValueError ''zero-size array to reduction operation maximum which has no identity'')
      else Inr (Max (set xs)))"

text \<open>
  A Python slice \<^verbatim>\<open>xs[lo:hi]\<close>: a negative bound counts from the end, and both bounds
  are clipped to the array.
\<close>

definition slice_index :: "int \<Rightarrow> nat \<Rightarrow> nat" where
  "slice_index i n = (if i < 0 then nat (max 0 (i + int n)) else min (nat i) n)"

definition py_slice :: "int \<Rightarrow> int \<Rightarrow> 'a list \<Rightarrow> 'a list" where
  "py_slice lo hi xs =
     (let n = length xs; a = slice_index lo n; b = slice_index hi n
      in take (b - a) (drop a xs))"

section \<open>eigen_compose\<close>

text \<open>\<^verbatim>\<open>threshold = 10.0 * sys.float_info.epsilon\<close>, with epsilon \<open>2\<^sup>-\<^sup>5\<^sup>2\<close>.\<close>

definition threshold :: real where
  "threshold = 10 / 2 ^ 52"

text \<open>
  \<^verbatim>\<open>v.dot(wdiag.dot(v.T))\<close> with \<^verbatim>\<open>wdiag = spdiags(wscaled, 0, dim, dim)\<close>: entry
  \<open>(i, j)\<close> is the sum over \<open>k\<close> of \<open>v[i][k] * (wscaled[k] * v[j][k])\<close>.
\<close>

definition recompose :: "mat \<Rightarrow> fvec \<Rightarrow> fmat" where
  "recompose v wscaled =
     map (\<lambda>vi. map (\<lambda>vj. fsum (map (\<lambda>(a, s, b). fmul (Fin a) (fmul s (Fin b)))
                                   (zip vi (zip wscaled vj)))) v) v"

definition eigen_compose :: "vec \<Rightarrow> mat \<Rightarrow> bool \<Rightarrow> bool \<Rightarrow> py_error + fmat" where
  "eigen_compose w v invert sqr =
     (case np_max w of
        Inl e \<Rightarrow> Inl e
      | Inr maxval \<Rightarrow>
          let wscaled =
            (if invert then
               (if sqr then
                  let minval = fmul (fsqrt (Fin maxval)) (Fin threshold);
                      replace = frecip minval;
                      tempsqr = map (\<lambda>x. fsqrt (Fin x)) w
                  in map (\<lambda>t. if fgt t minval then frecip t else replace) tempsqr
                else
                  let minval = maxval * threshold;
                      replace = frecip (Fin minval)
                  in map (\<lambda>x. if x > minval then frecip (Fin x) else replace) w)
             else
               (if sqr then
                  let minval = fmul (fsqrt (Fin maxval)) (Fin threshold);
                      replace = minval
                  in map (\<lambda>x. if fgt (Fin x) minval then fsqrt (Fin x) else replace) w
                else
                  let minval = maxval * threshold;
                      replace = minval
                  in map (\<lambda>x. if x > minval then Fin x else Fin replace) w))
          in Inr (recompose v wscaled))"

section \<open>resolution_from_icov\<close>

text \<open>
  \<^verbatim>\<open>scipy.linalg.eigh\<close> is a parameter of the model: a function from a real symmetric
  matrix to its eigenvalues and the matrix whose columns are the eigenvectors. It
  refuses an array that holds an infinity or a NaN with a ValueError; a failure of the
  LAPACK routine to converge is not modelled.
\<close>

type_synonym eigh_fn = "mat \<Rightarrow> vec \<times> mat"

fun is_fin :: "fl \<Rightarrow> bool" where
  "is_fin (Fin a) = True"
| "is_fin x = False"

fun fin_val :: "fl \<Rightarrow> real" where
  "fin_val (Fin a) = a"
| "fin_val x = 0"

definition finite_entries :: "fmat \<Rightarrow> mat option" where
  "finite_entries m =
     (if list_all (list_all is_fin) m then Some (map (map fin_val) m) else None)"

definition eigh_checked :: "eigh_fn \<Rightarrow> fmat \<Rightarrow> py_error + vec \<times> mat" where
  "eigh_checked eigh m =
     (case finite_entries m of
        None \<Rightarrow> Inl (ValueError ''array must not contain infs or NaNs'')
      | Some a \<Rightarrow> Inr (eigh a))"

text \<open>\<^verbatim>\<open>icov = 0.5*(icov + icov.T)\<close> on a square array.\<close>

definition symmetrize :: "mat \<Rightarrow> mat" where
  "symmetrize icov = map2 (map2 (\<lambda>a b. 0.5 * (a + b))) icov (transpose icov)"

text \<open>
  \<^verbatim>\<open>sqrt_icov[offset:offset+b, offset:offset+b] = block\<close>. numpy raises ValueError
  when the shape of the value differs from the shape of the sliced target (a value that
  numpy would broadcast, a single row or column, is not produced by \<^verbatim>\<open>eigen_compose\<close>
  for a target of another shape and is refused here as well).
\<close>

definition assign_block :: "int \<Rightarrow> int \<Rightarrow> fmat \<Rightarrow> fmat \<Rightarrow> py_error + fmat" where
  "assign_block lo hi block m =
     (let rows = py_slice lo hi m;
          a = slice_index lo (length m)
      in if length block = length rows \<and>
            list_all2 (\<lambda>brow row. length brow = length (py_slice lo hi row)) block rows
         then Inr (take a m @
                   map2 (\<lambda>brow row. let c = slice_index lo (length row)
                                      in take c row @ brow @ drop (c + length brow) row)
                        block rows @
                   drop (a + length rows) m)
         else Inl (ValueError ''could not broadcast input array into shape of the slice''))"

text \<open>The loop \<^verbatim>\<open>for b in decorr\<close>, with the running \<^verbatim>\<open>offset\<close>.\<close>

fun decorr_blocks :: "eigh_fn \<Rightarrow> fmat \<Rightarrow> int list \<Rightarrow> int \<Rightarrow> fmat \<Rightarrow> py_error + fmat" where
  "decorr_blocks eigh inverse_cov [] offset sqrt_icov = Inr sqrt_icov"
| "decorr_blocks eigh inverse_cov (b # bs) offset sqrt_icov =
     (case eigh_checked eigh (map (py_slice offset (offset + b))
                                  (py_slice offset (offset + b) inverse_cov)) of
        Inl e \<Rightarrow> Inl e
      | Inr (bw, bv) \<Rightarrow>
          (case eigen_compose bw bv True True of
             Inl e \<Rightarrow> Inl e
           | Inr block \<Rightarrow>
               (case assign_block offset (offset + b) block sqrt_icov of
                  Inl e \<Rightarrow> Inl e
                | Inr sqrt_icov' \<Rightarrow>
                    decorr_blocks eigh inverse_cov bs (offset + b) sqrt_icov')))"

text \<open>
  The last three steps: the normalization vector \<^verbatim>\<open>np.sum(sqrt_icov, axis=1)\<close>, the
  resolution matrix \<^verbatim>\<open>outer(norm_vector**(-1), ones) * sqrt_icov\<close> and
  \<^verbatim>\<open>ivar = norm_vector**2\<close>.
\<close>

definition norm_vector_of :: "fmat \<Rightarrow> fvec" where
  "norm_vector_of sqrt_icov = map fsum sqrt_icov"

definition resolution_of :: "fvec \<Rightarrow> fmat \<Rightarrow> fmat" where
  "resolution_of norm_vector sqrt_icov =
     map2 (\<lambda>n row. map (\<lambda>q. fmul (fmul (frecip n) (Fin 1)) q) row) norm_vector sqrt_icov"

text \<open>
  \<^verbatim>\<open>np.sum(decorr)\<close> of a list of integers: numpy holds them in an array of 64-bit
  signed integers and the sum wraps around modulo \<open>2\<^sup>6\<^sup>4\<close>. (The entries are the block
  sizes; a list with an entry outside the 64-bit range is outside the model.)
\<close>

definition int64_wrap :: "int \<Rightarrow> int" where
  "int64_wrap n = (n + 2 ^ 63) mod 2 ^ 64 - 2 ^ 63"

definition np_sum_int64 :: "int list \<Rightarrow> int" where
  "np_sum_int64 bs = int64_wrap (sum_list bs)"

definition resolution_from_icov ::
  "eigh_fn \<Rightarrow> mat \<Rightarrow> int list option \<Rightarrow> py_error + fmat \<times> fvec" where
  "resolution_from_icov eigh icov0 decorr =
     (let icov = symmetrize icov0;
          (w, v) = eigh icov;
          zeros = map (map (\<lambda>x. Fin 0)) icov
      in case (case decorr of
                 Some bs \<Rightarrow>
                   if np_sum_int64 bs = int (length icov)
                   then (case eigen_compose w v True False of
                           Inl e \<Rightarrow> Inl e
                         | Inr inverse_cov \<Rightarrow> decorr_blocks eigh inverse_cov bs 0 zeros)
                   else Inl (RuntimeError
                          ''The list of spectral block sizes must sum to the matrix size'')
               | None \<Rightarrow> eigen_compose w v False True) of
           Inl e \<Rightarrow> Inl e
         | Inr sqrt_icov \<Rightarrow>
             let norm_vector = norm_vector_of sqrt_icov;
                 R = resolution_of norm_vector sqrt_icov;
                 ivar = map (\<lambda>n. fmul n n) norm_vector
             in Inr (R, ivar))"

section \<open>Dense products\<close>

text \<open>\<^verbatim>\<open>a.dot(b)\<close> for a vector and for a matrix, and the transpose \<^verbatim>\<open>a.T\<close>.\<close>

definition fdot :: "fvec \<Rightarrow> fvec \<Rightarrow> fl" where
  "fdot xs ys = fsum (map2 fmul xs ys)"

definition fmat_vec :: "fmat \<Rightarrow> fvec \<Rightarrow> fvec" where
  "fmat_vec a x = map (\<lambda>row. fdot row x) a"

definition fmat_mul :: "fmat \<Rightarrow> fmat \<Rightarrow> fmat" where
  "fmat_mul a b = map (\<lambda>row. map (\<lambda>col. fdot row col) (transpose b)) a"

text \<open>
  The value of \<^verbatim>\<open>eigh\<close> on an identity matrix of any size (the 0 by 0 matrix
  included): all eigenvalues are 1 and the eigenvectors are the unit vectors. It is used
  where a property is evaluated at a concrete identity matrix.
\<close>

definition eigh_identity :: eigh_fn where
  "eigh_identity m =
     (replicate (length m) 1,
      map (\<lambda>i. map (\<lambda>j. if i = j then 1 else 0) [0..<length m]) [0..<length m])"

section \<open>The PSF provider and dense real products\<close>

text \<open>
  The PSF object is supplied by the caller; the model takes its methods as the fields
  of a record. \<^verbatim>\<open>pix\<close> is read only for the shape of the stamp it returns, and
  \<^verbatim>\<open>projection_matrix\<close> gives the matrix \<open>A\<close> as a dense list of rows, one row per pixel
  and one column per flux bin.
\<close>

record psf =
  wmin :: real
  wmax :: real
  wmin_all :: real
  wmax_all :: real
  psferr :: real
  wdisp :: "int \<Rightarrow> real \<Rightarrow> real"
  pix_shape :: "int \<Rightarrow> real \<Rightarrow> nat \<times> nat"
  wavelength :: "int \<Rightarrow> int \<Rightarrow> real"
  xyrange_of :: "int \<times> int \<Rightarrow> real \<times> real \<Rightarrow> int \<times> int \<times> int \<times> int"
  projection_matrix :: "int \<times> int \<Rightarrow> vec \<Rightarrow> int \<times> int \<times> int \<times> int \<Rightarrow> mat"

definition dot :: "vec \<Rightarrow> vec \<Rightarrow> real" where
  "dot xs ys = sum_list (map2 (*) xs ys)"

definition mat_vec :: "mat \<Rightarrow> vec \<Rightarrow> vec" where
  "mat_vec a x = map (\<lambda>row. dot row x) a"

text \<open>
  A list of rows does not record how many columns a matrix without rows has, so the
  operations that read the columns take their number. \<^verbatim>\<open>a.T\<close> for a matrix with
  \<open>ncols\<close> columns, and \<^verbatim>\<open>a.dot(b)\<close> for a matrix \<open>b\<close> with \<open>ncols\<close> columns:
\<close>

definition mat_T :: "nat \<Rightarrow> mat \<Rightarrow> mat" where
  "mat_T ncols a = map (\<lambda>j. map (\<lambda>row. row ! j) a) [0..<ncols]"

definition mat_mul :: "nat \<Rightarrow> mat \<Rightarrow> mat \<Rightarrow> mat" where
  "mat_mul ncols a b = map (\<lambda>row. map (\<lambda>col. dot row col) (mat_T ncols b)) a"

text \<open>
  The number of columns of the projection matrix: the length of its rows, and for a
  matrix without rows (a patch without pixels) the number of flux bins the PSF was asked
  for.
\<close>

definition ncols_of :: "nat \<Rightarrow> mat \<Rightarrow> nat" where
  "ncols_of nflux a = (if a = [] then nflux else length (hd a))"

text \<open>
  \<^verbatim>\<open>W.dot(A)\<close> for the diagonal matrix \<open>W\<close> of the weights \<open>w\<close>: row \<open>i\<close> of \<open>A\<close> times
  \<open>w[i]\<close>. Where \<open>w\<close> is shorter than \<open>A\<close> has rows the rows beyond it are dropped; the
  sparse diagonal has zeros there, and the sums of the columns are the same.
\<close>

definition diag_mul :: "vec \<Rightarrow> mat \<Rightarrow> mat" where
  "diag_mul w a = map2 (\<lambda>wi row. map (\<lambda>x. wi * x) row) w a"

text \<open>\<^verbatim>\<open>m.sum(axis=0)\<close>: the sums of the columns of a matrix with \<open>ncols\<close> columns.\<close>

definition column_sums :: "nat \<Rightarrow> mat \<Rightarrow> vec" where
  "column_sums ncols m = map sum_list (mat_T ncols m)"

text \<open>\<^verbatim>\<open>x.reshape((r, c))\<close> of a 1D array raises ValueError unless it has \<open>r * c\<close> entries.\<close>

definition reshape2 :: "nat \<Rightarrow> nat \<Rightarrow> 'a list \<Rightarrow> py_error + 'a list list" where
  "reshape2 r c xs =
     (if length xs \<noteq> r * c then Inl (ValueError ''cannot reshape array'')
      else Inr (map (\<lambda>i. take c (drop (i * c) xs)) [0..<r]))"

text \<open>
  \<^verbatim>\<open>x.reshape(r, c)\<close> with an integer \<open>r\<close> that may be negative: numpy reads \<open>-1\<close> as ``the
  number of rows that fits'' and refuses any other negative number.
\<close>

definition np_reshape :: "int \<Rightarrow> nat \<Rightarrow> 'a list \<Rightarrow> py_error + 'a list list" where
  "np_reshape r c xs =
     (if r = - 1
      then (if c = 0 \<or> length xs mod c \<noteq> 0 then Inl (ValueError ''cannot reshape array'')
            else reshape2 (length xs div c) c xs)
      else if r < 0 then Inl (ValueError ''negative dimensions not allowed'')
      else reshape2 (nat r) c xs)"

section \<open>ex2d_patch\<close>

text \<open>
  Both variants return the dictionary \<^verbatim>\<open>results\<close>, with the options of the call echoed
  under \<^verbatim>\<open>options\<close>.
\<close>

record patch_options =
  opt_specmin :: int
  opt_nspec :: int
  opt_wavelengths :: vec
  opt_xyrange :: "int \<times> int \<times> int \<times> int"
  opt_regularize :: real
  opt_ndecorr :: bool

record patch_result =
  res_flux :: fmat
  res_ivar :: fmat
  res_R :: fmat
  res_xflux :: fmat
  res_A :: mat
  res_iCov :: mat
  res_options :: patch_options

text \<open>
  The solvers \<^verbatim>\<open>cupyx.scipy.sparse.linalg.lsqr\<close> and \<^verbatim>\<open>cupy.linalg.solve\<close> are
  parameters: from the matrix and the right-hand side to the solution, or an exception.
  The matrices are dense lists of rows, every row of a matrix of the same length; a
  product whose dimensions do not agree raises ValueError, as the sparse product does.
\<close>

type_synonym solver = "mat \<Rightarrow> vec \<Rightarrow> py_error + fvec"

text \<open>
  The steps shared by the two variants (Bolton and Schlegel eq 10 to 12): the
  eigendecomposition of \<open>iCov\<close>, \<open>Q = v diag(sqrt(u)) v\<^sup>T\<close> with no floor on the
  eigenvalues, the normalization vector and the resolution matrix.
\<close>

definition patch_sqrt_icov :: "eigh_fn \<Rightarrow> mat \<Rightarrow> fmat" where
  "patch_sqrt_icov eigh iCov =
     (let (u, v) = eigh iCov in recompose v (map (\<lambda>x. fsqrt (Fin x)) u))"

definition patch_norm_vector :: "eigh_fn \<Rightarrow> mat \<Rightarrow> fvec" where
  "patch_norm_vector eigh iCov = norm_vector_of (patch_sqrt_icov eigh iCov)"

definition patch_resolution :: "eigh_fn \<Rightarrow> mat \<Rightarrow> fmat" where
  "patch_resolution eigh iCov =
     resolution_of (patch_norm_vector eigh iCov) (patch_sqrt_icov eigh iCov)"

text \<open>\<^verbatim>\<open>Cx = R.dot(Cov.dot(R.T))\<close> with \<^verbatim>\<open>Cov = v diag(1/u) v\<^sup>T\<close> (eq 13 to 15).\<close>

definition patch_decorrelated_cov :: "eigh_fn \<Rightarrow> mat \<Rightarrow> fmat" where
  "patch_decorrelated_cov eigh iCov =
     (let (u, v) = eigh iCov;
          Cov = recompose v (map (\<lambda>x. frecip (Fin x)) u);
          R = patch_resolution eigh iCov
      in fmat_mul R (fmat_mul Cov (transpose R)))"

subsection \<open>The iterative-solve variant (ex2d_patch_gpu.py)\<close>

text \<open>
  \<^verbatim>\<open>W = spdiags(ivar.ravel(), [0], npix, npix)\<close> with \<open>npix\<close> the number of pixels of the
  image: the diagonal holds the first \<open>npix\<close> weights, and zeros where there are fewer.
  \<^verbatim>\<open>W.dot(A)\<close> raises ValueError unless \<open>A\<close> has \<open>npix\<close> rows.
\<close>

definition ex2d_patch ::
  "solver \<Rightarrow> eigh_fn \<Rightarrow> mat \<Rightarrow> mat \<Rightarrow> psf \<Rightarrow> int \<Rightarrow> int \<Rightarrow> vec \<Rightarrow>
   int \<times> int \<times> int \<times> int \<Rightarrow> real \<Rightarrow> bool \<Rightarrow> py_error + patch_result" where
  "ex2d_patch lsqr eigh img ivar psf specmin nspec wavelengths xyrange regularize ndecorr =
     (let specrange = (specmin, specmin + nspec);
          ny = length img;
          nx = (if img = [] then 0 else length (hd img));
          npix = ny * nx;
          nwave = length wavelengths;
          A = projection_matrix psf specrange wavelengths xyrange;
          nflux = ncols_of (nat nspec * nwave) A;
          w = take npix (concat ivar @ replicate npix 0)
      in if length A = npix
         then
           let iCov = mat_mul nflux (mat_T nflux A) (diag_mul w A);
               y = mat_vec (mat_T nflux A) (map2 (*) w (concat img))
           in case lsqr iCov y of
                Inl e \<Rightarrow> Inl e
              | Inr f0 \<Rightarrow>
                  (case np_reshape nspec nwave f0 of
                     Inl e \<Rightarrow> Inl e
                   | Inr f \<Rightarrow>
                       let R = patch_resolution eigh iCov;
                           Cx = patch_decorrelated_cov eigh iCov
                       in (case reshape2 (length f) nwave (fmat_vec R (concat f)) of
                             Inl e \<Rightarrow> Inl e
                           | Inr fx \<Rightarrow>
                               (case reshape2 (length f) nwave
                                       (map (\<lambda>i. Cx ! i ! i) [0..<length Cx]) of
                                  Inl e \<Rightarrow> Inl e
                                | Inr varfx \<Rightarrow>
                                    Inr \<lparr>res_flux = fx, res_ivar = varfx, res_R = R,
                                         res_xflux = f, res_A = A, res_iCov = iCov,
                                         res_options =
                                           \<lparr>opt_specmin = specmin, opt_nspec = nspec,
                                            opt_wavelengths = wavelengths,
                                            opt_xyrange = xyrange,
                                            opt_regularize = regularize,
                                            opt_ndecorr = ndecorr\<rparr>\<rparr>)))
         else Inl (ValueError ''dimension mismatch''))"

subsection \<open>The direct-solve variant (ex2d_patch_gpu_matrix.py)\<close>

text \<open>
  The region of the image the patch works on: with \<^verbatim>\<open>xyrange=None\<close> the PSF is asked
  for the range and the image and its inverse variance are cropped to it.
\<close>

definition patch_region ::
  "psf \<Rightarrow> int \<times> int \<Rightarrow> real \<times> real \<Rightarrow> (int \<times> int \<times> int \<times> int) option \<Rightarrow> mat \<Rightarrow> mat \<Rightarrow>
   (int \<times> int \<times> int \<times> int) \<times> mat \<times> mat" where
  "patch_region psf specrange waverange xyrange0 image0 ivar0 =
     (case xyrange0 of
        None \<Rightarrow>
          (let (xmin, xmax, ymin, ymax) = xyrange_of psf specrange waverange
           in ((xmin, xmax, ymin, ymax),
               map (py_slice xmin xmax) (py_slice ymin ymax image0),
               map (py_slice xmin xmax) (py_slice ymin ymax ivar0)))
      | Some r \<Rightarrow> (r, image0, ivar0))"

text \<open>
  The regularization of the system: the weight of each flux bin
  (\<^verbatim>\<open>W.dot(A).sum(axis=0)\<close>), the bins whose weight is below \<open>10\<^sup>-\<^sup>4\<close> of the largest,
  the diagonal \<^verbatim>\<open>Idiag\<close>, and the system extended by the identity block when some entry
  of the diagonal is not zero. The result is \<^verbatim>\<open>(pix, Ax, wx)\<close>. \<^verbatim>\<open>np.max\<close> raises
  ValueError when \<open>A\<close> has no column, \<^verbatim>\<open>np.ones(nspec*nwave)\<close> raises ValueError for a
  negative size, and \<^verbatim>\<open>Idiag[ibad] = ...\<close> raises IndexError unless the number of
  columns of \<open>A\<close> is \<^verbatim>\<open>nspec*nwave\<close>.
\<close>

definition regularized_system ::
  "real \<Rightarrow> int \<Rightarrow> mat \<Rightarrow> vec \<Rightarrow> vec \<Rightarrow> py_error + vec \<times> mat \<times> vec" where
  "regularized_system regularize nflux A w pix0 =
     (let fluxweight = column_sums (ncols_of (nat nflux) A) (diag_mul w A)
      in case np_max fluxweight of
           Inl e \<Rightarrow> Inl e
         | Inr maxweight \<Rightarrow>
             let minweight = 1 / 10 ^ 4 * maxweight;
                 ibad = map (\<lambda>fw. fw < minweight) fluxweight
             in if 0 \<le> nflux
                then
                  if length ibad = nat nflux
                  then
                    let Idiag = map (\<lambda>fw. if fw < minweight then minweight - fw else regularize)
                                    fluxweight;
                        I = map (\<lambda>i. map (\<lambda>j. if i = j then Idiag ! i else 0) [0..<nat nflux])
                                [0..<nat nflux]
                    in if list_ex (\<lambda>d. d \<noteq> 0) Idiag
                       then Inr (pix0 @ replicate (nat nflux) 0, A @ I, w @ replicate (nat nflux) 1)
                       else Inr (pix0, A, w)
                  else Inl (IndexError ''boolean index did not match indexed array'')
                else Inl (ValueError ''negative dimensions are not allowed''))"

text \<open>
  The patch. The sparse products check their dimensions: \<^verbatim>\<open>W.dot(A)\<close> with the
  \<open>npix\<close> by \<open>npix\<close> matrix \<open>W\<close> needs \<open>npix\<close> rows of \<open>A\<close>, \<^verbatim>\<open>Wx.dot(Ax)\<close> needs as many
  weights as \<open>Ax\<close> has rows, and \<^verbatim>\<open>Wx.dot(pix)\<close> as many pixels of the image as there are
  weights; each raises ValueError otherwise.
\<close>

definition ex2d_patch_matrix ::
  "solver \<Rightarrow> eigh_fn \<Rightarrow> mat \<Rightarrow> mat \<Rightarrow> psf \<Rightarrow> int \<Rightarrow> int \<Rightarrow> vec \<Rightarrow>
   (int \<times> int \<times> int \<times> int) option \<Rightarrow> real \<Rightarrow> bool \<Rightarrow> py_error + patch_result" where
  "ex2d_patch_matrix solve eigh image0 ivar0 psf specmin nspec0 wavelengths xyrange0
                     regularize ndecorr =
     (if wavelengths = [] then Inl (IndexError ''index 0 is out of bounds for axis 0 with size 0'')
      else
        let waverange = (hd wavelengths, last wavelengths);
            specrange = (specmin, specmin + nspec0);
            (xyrange, img, ivar) = patch_region psf specrange waverange xyrange0 image0 ivar0;
            (xmin, xmax, ymin, ymax) = xyrange;
            npix = (xmax - xmin) * (ymax - ymin);
            nspec = snd specrange - fst specrange;
            nwave = length wavelengths;
            A = projection_matrix psf specrange wavelengths xyrange;
            w = concat ivar
        in if 0 \<le> npix \<and> int (length A) = npix
           then
             (case regularized_system regularize (nspec * int nwave) A w (concat img) of
                Inl e \<Rightarrow> Inl e
              | Inr (pix, Ax, wx) \<Rightarrow>
                  if length wx = length Ax \<and> length pix = length wx
                  then
                    let nflux = nat nspec * nwave;
                        iCov = mat_mul nflux (mat_T nflux Ax) (diag_mul wx Ax);
                        y = mat_vec (mat_T nflux Ax) (map2 (*) wx pix)
                    in (case solve iCov y of
                          Inl e \<Rightarrow> Inl e
                        | Inr f0 \<Rightarrow>
                            (case reshape2 (nat nspec) nwave f0 of
                               Inl e \<Rightarrow> Inl e
                             | Inr f \<Rightarrow>
                                 let norm_vector = patch_norm_vector eigh iCov;
                                     R = patch_resolution eigh iCov
                                 in (case reshape2 (nat nspec) nwave (fmat_vec R (concat f)) of
                                       Inl e \<Rightarrow> Inl e
                                     | Inr fx \<Rightarrow>
                                         (case reshape2 (nat nspec) nwave
                                                 (map (\<lambda>n. fmul n (Fin 2)) norm_vector) of
                                            Inl e \<Rightarrow> Inl e
                                          | Inr varfx \<Rightarrow>
                                              Inr \<lparr>res_flux = fx, res_ivar = varfx, res_R = R,
                                                   res_xflux = f, res_A = A, res_iCov = iCov,
                                                   res_options =
                                                     \<lparr>opt_specmin = specmin,
                                                      opt_nspec = nspec0,
                                                      opt_wavelengths = wavelengths,
                                                      opt_xyrange = xyrange,
                                                      opt_regularize = regularize,
                                                      opt_ndecorr = ndecorr\<rparr>\<rparr>))))
                  else Inl (ValueError ''dimension mismatch''))
           else Inl (ValueError ''dimension mismatch''))"

text \<open>
  Modelled from the spec: the system claim C5 compares with, in the words of the
  specification ``the plain unaugmented weighted normal equations
  \<open>(A\<^sup>T W A) x = A\<^sup>T W pix\<close> with \<open>W = diag(ivar)\<close>'', written entry by entry for \<open>n\<close> flux
  bins: entry \<open>(j, k)\<close> of the matrix is the sum over the pixels \<open>i\<close> of
  \<open>A[i][j] * ivar[i] * A[i][k]\<close>, and entry \<open>j\<close> of the right-hand side the sum of
  \<open>A[i][j] * ivar[i] * pix[i]\<close>. The weight of flux bin \<open>j\<close> is the sum of
  \<open>ivar[i] * A[i][j]\<close>.
\<close>

definition normal_matrix :: "nat \<Rightarrow> mat \<Rightarrow> vec \<Rightarrow> mat" where
  "normal_matrix n A ivar =
     map (\<lambda>j. map (\<lambda>k. sum_list (map (\<lambda>i. A ! i ! j * ivar ! i * A ! i ! k) [0..<length A]))
                  [0..<n]) [0..<n]"

definition normal_rhs :: "nat \<Rightarrow> mat \<Rightarrow> vec \<Rightarrow> vec \<Rightarrow> vec" where
  "normal_rhs n A ivar pix =
     map (\<lambda>j. sum_list (map (\<lambda>i. A ! i ! j * ivar ! i * pix ! i) [0..<length A])) [0..<n]"

definition unregularized_normal_equations_solve ::
  "solver \<Rightarrow> nat \<Rightarrow> mat \<Rightarrow> vec \<Rightarrow> vec \<Rightarrow> py_error + fvec" where
  "unregularized_normal_equations_solve solve n A ivar pix =
     solve (normal_matrix n A ivar) (normal_rhs n A ivar pix)"

definition flux_weight :: "mat \<Rightarrow> vec \<Rightarrow> nat \<Rightarrow> real" where
  "flux_weight A ivar j = sum_list (map (\<lambda>i. ivar ! i * A ! i ! j) [0..<length A])"

text \<open>
  A PSF with one pixel and one flux bin, for evaluating a patch at a concrete input:
  its projection matrix is \<open>[[1]]\<close>. The 1 by 1 system \<open>m x = y\<close> has the solution
  \<open>y/m\<close>, and the 1 by 1 matrix \<open>[[m]]\<close> the eigenvalue \<open>m\<close> with the eigenvector \<open>(1)\<close>.
\<close>

definition one_pixel_psf :: psf where
  "one_pixel_psf =
     \<lparr>wmin = 5000, wmax = 5000, wmin_all = 5000, wmax_all = 5000, psferr = 0,
      wdisp = (\<lambda>ispec w. 1), pix_shape = (\<lambda>ispec w. (1, 1)),
      wavelength = (\<lambda>ispec y. 5000), xyrange_of = (\<lambda>specrange waverange. (0, 1, 0, 1)),
      projection_matrix = (\<lambda>specrange wavelengths xyrange. [[1]])\<rparr>"

definition solve_1x1 :: solver where
  "solve_1x1 m y = Inr [Fin (hd y / hd (hd m))]"

definition eigh_1x1 :: eigh_fn where
  "eigh_1x1 m = ([hd (hd m)], [[1]])"

text \<open>
  A patch of three pixels in a row and one spectrum with two flux bins: the first pixel
  sees the first bin, the last pixel the second, the middle pixel both. With the inverse
  variances \<open>16, 36, 37\<close> the matrix of the normal equations is \<open>[[52, 36], [36, 73]]\<close>;
  its eigenvalues are 25 and 100 with the eigenvectors \<open>(4/5, -3/5)\<close> and \<open>(3/5, 4/5)\<close>.
  A 2 by 2 system is solved by Cramer's rule (a singular one gives NaN, as
  \<^verbatim>\<open>cupy.linalg.solve\<close> does not check for singularity).
\<close>

definition three_pixel_psf :: psf where
  "three_pixel_psf =
     \<lparr>wmin = 5000, wmax = 5001, wmin_all = 5000, wmax_all = 5001, psferr = 0,
      wdisp = (\<lambda>ispec w. 1), pix_shape = (\<lambda>ispec w. (1, 3)),
      wavelength = (\<lambda>ispec y. 5000), xyrange_of = (\<lambda>specrange waverange. (0, 3, 0, 1)),
      projection_matrix = (\<lambda>specrange wavelengths xyrange. [[1, 0], [1, 1], [0, 1]])\<rparr>"

definition solve_2x2 :: solver where
  "solve_2x2 m y =
     (let a = m ! 0 ! 0; b = m ! 0 ! 1; c = m ! 1 ! 0; d = m ! 1 ! 1;
          e = y ! 0; f = y ! 1;
          det = a * d - b * c
      in if det = 0 then Inr [NaN, NaN]
         else Inr [Fin ((e * d - b * f) / det), Fin ((a * f - e * c) / det)])"

definition eigh_2x2_example :: eigh_fn where
  "eigh_2x2_example m = ([25, 100], [[4 / 5, 3 / 5], [- (3 / 5), 4 / 5]])"

section \<open>ex2d\<close>

text \<open>
  The driver \<^verbatim>\<open>ex2d\<close> is the same in the two files up to three places, which the
  parameter \<open>engine\<close> selects: the call of \<^verbatim>\<open>ex2d_patch\<close> (the iterative variant passes
  neither \<^verbatim>\<open>regularize\<close> nor \<^verbatim>\<open>ndecorr\<close>), the filling of \<^verbatim>\<open>Rd\<close> (in the direct-solve
  file it sits under \<^verbatim>\<open>if full_output\<close>), and the timing \<^verbatim>\<open>np.mean(deltat)\<close> after the
  loop of the direct-solve file, where \<^verbatim>\<open>deltat\<close> is unbound when the loop did not run.
  The model is the call with \<^verbatim>\<open>full_output=False\<close>, \<^verbatim>\<open>verbose=False\<close> and
  \<^verbatim>\<open>debug=False\<close>: the diagnostic images are not computed.
\<close>

datatype engine = Iterative | Direct

definition np_diff :: "vec \<Rightarrow> vec" where
  "np_diff xs = map2 (\<lambda>a b. b - a) xs (tl xs)"

text \<open>\<^verbatim>\<open>np.allclose(a, b)\<close> with the default tolerances \<^verbatim>\<open>rtol=1e-5, atol=1e-8\<close>.\<close>

definition np_allclose :: "real \<Rightarrow> vec \<Rightarrow> bool" where
  "np_allclose a bs = list_all (\<lambda>b. \<bar>a - b\<bar> \<le> 1 / 10 ^ 8 + 1 / 10 ^ 5 * \<bar>b\<bar>) bs"

text \<open>Python 3 rounds a half to the even neighbour; \<^verbatim>\<open>int()\<close> of a float truncates.\<close>

definition round_half_even :: "real \<Rightarrow> int" where
  "round_half_even x =
     (let f = \<lfloor>x\<rfloor>; r = x - of_int f
      in if r < 1 / 2 then f else if r > 1 / 2 then f + 1 else if even f then f else f + 1)"

definition py_trunc :: "real \<Rightarrow> int" where
  "py_trunc x = (if x \<ge> 0 then \<lfloor>x\<rfloor> else \<lceil>x\<rceil>)"

text \<open>
  \<^verbatim>\<open>int(round(x / dw))\<close> on numpy floats: with \<open>dw = 0\<close> the quotient is an infinity or
  NaN, which cannot be converted to an integer.
\<close>

definition int_round_div :: "real \<Rightarrow> real \<Rightarrow> py_error + int" where
  "int_round_div x dw =
     (if dw = 0
      then (if x = 0 then Inl (ValueError ''cannot convert float NaN to integer'')
            else Inl (OverflowError ''cannot convert float infinity to integer''))
      else Inr (round_half_even (x / dw)))"

text \<open>\<^verbatim>\<open>int(x / dw)\<close> on numpy floats, with the same two exceptions.\<close>

definition int_trunc_div :: "real \<Rightarrow> real \<Rightarrow> py_error + int" where
  "int_trunc_div x dw =
     (if dw = 0
      then (if x = 0 then Inl (ValueError ''cannot convert float NaN to integer'')
            else Inl (OverflowError ''cannot convert float infinity to integer''))
      else Inr (py_trunc (x / dw)))"

text \<open>\<^verbatim>\<open>range(0, n, step)\<close> for \<open>n \<ge> 0\<close>.\<close>

definition py_range :: "int \<Rightarrow> int \<Rightarrow> py_error + int list" where
  "py_range n step =
     (if step = 0 then Inl (ValueError ''range() arg 3 must not be zero'')
      else if step < 0 then Inr []
      else Inr (map (\<lambda>k. int k * step) [0..<nat ((n + step - 1) div step)]))"

text \<open>\<^verbatim>\<open>np.arange(start, stop, step)\<close> on floats has \<open>ceil((stop - start)/step)\<close> entries.\<close>

definition np_arange :: "real \<Rightarrow> real \<Rightarrow> real \<Rightarrow> vec" where
  "np_arange start stop step =
     map (\<lambda>k. start + real k * step) [0..<nat \<lceil>(stop - start) / step\<rceil>]"

text \<open>\<^verbatim>\<open>np.gradient\<close> of a 1D array with at least two entries.\<close>

definition np_gradient :: "vec \<Rightarrow> vec" where
  "np_gradient xs =
     (let n = length xs
      in map (\<lambda>i. if i = 0 then xs ! 1 - xs ! 0
                   else if i = n - 1 then xs ! (n - 1) - xs ! (n - 2)
                   else (xs ! (i + 1) - xs ! (i - 1)) / 2) [0..<n])"

text \<open>
  Indexing with a boolean mask, \<^verbatim>\<open>xs[mask]\<close>: numpy raises IndexError unless the mask has
  the length of the indexed dimension.
\<close>

definition bool_index :: "bool list \<Rightarrow> 'a list \<Rightarrow> py_error + 'a list" where
  "bool_index keep xs =
     (if length keep = length xs then Inr (map snd (filter fst (zip keep xs)))
      else Inl (IndexError ''boolean index did not match indexed array along dimension 0''))"

text \<open>The columns a patch writes: the slice \<^verbatim>\<open>iwave:iwave+wavesize+1\<close> of \<open>nwave\<close> columns.\<close>

definition patch_columns :: "nat \<Rightarrow> int \<Rightarrow> int \<Rightarrow> nat list" where
  "patch_columns nwave wavesize iwave =
     [slice_index iwave nwave..<slice_index (iwave + wavesize + 1) nwave]"

text \<open>
  \<^verbatim>\<open>target[rows, iwave:iwave+wavesize+1] = values\<close>, one row of values per row index.
  The rows of values must have as many entries as the patch has columns, or one entry,
  which numpy repeats; otherwise numpy raises ValueError.
\<close>

definition write_row :: "nat list \<Rightarrow> fvec \<Rightarrow> fvec \<Rightarrow> fvec" where
  "write_row cols vals row =
     (if cols = [] then row
      else take (hd cols) row @
           (if length vals = length cols then vals else replicate (length cols) (hd vals)) @
           drop (hd cols + length cols) row)"

definition assign_columns ::
  "int list \<Rightarrow> nat list \<Rightarrow> fmat \<Rightarrow> fmat \<Rightarrow> py_error + fmat" where
  "assign_columns rows cols vals target =
     (if list_all (\<lambda>v. length v = length cols \<or> length v = 1) vals
      then Inr (fold (\<lambda>(r, v) t. t[nat r := write_row cols v (t ! nat r)]) (zip rows vals) target)
      else Inl (ValueError ''shape mismatch: value array could not be broadcast to indexing result''))"

text \<open>
  The diagonals of the resolution matrix of one spectrum: for each core bin \<open>j\<close> the
  entries \<^verbatim>\<open>Rx[j-ndiag:j+ndiag+1, j]\<close> go to \<^verbatim>\<open>Rd[ispec-specmin, :, iwave+j-nlo]\<close>.
\<close>

definition band_column :: "fmat \<Rightarrow> int \<Rightarrow> int \<Rightarrow> py_error + fvec" where
  "band_column Rx j ndiag =
     (if 0 \<le> j \<and> j < int (length Rx)
      then Inr (map (\<lambda>row. row ! nat j) (py_slice (j - ndiag) (j + ndiag + 1) Rx))
      else Inl (IndexError ''index is out of bounds for axis 1''))"

definition write_band :: "fvec \<Rightarrow> int \<Rightarrow> fmat \<Rightarrow> py_error + fmat" where
  "write_band band col Rd1 =
     (if Rd1 \<noteq> [] \<and> \<not> (0 \<le> col \<and> col < int (length (hd Rd1)))
      then Inl (IndexError ''index is out of bounds for axis 2'')
      else if length band = length Rd1 \<or> length band = 1
      then Inr (map2 (\<lambda>b row. row[nat col := b])
                     (if length band = length Rd1 then band
                      else replicate (length Rd1) (hd band)) Rd1)
      else Inl (ValueError ''could not broadcast input array into shape of the band''))"

fun fill_bands :: "fmat \<Rightarrow> int \<Rightarrow> int \<Rightarrow> int \<Rightarrow> int list \<Rightarrow> fmat \<Rightarrow> py_error + fmat" where
  "fill_bands Rx ndiag iwave nlo [] Rd1 = Inr Rd1"
| "fill_bands Rx ndiag iwave nlo (j # js) Rd1 =
     (case band_column Rx j ndiag of
        Inl e \<Rightarrow> Inl e
      | Inr band \<Rightarrow>
          (case write_band band (iwave + j - nlo) Rd1 of
             Inl e \<Rightarrow> Inl e
           | Inr Rd1' \<Rightarrow> fill_bands Rx ndiag iwave nlo js Rd1'))"

fun fill_resolution ::
  "fmat \<Rightarrow> int \<Rightarrow> int \<Rightarrow> int \<Rightarrow> int \<Rightarrow> int \<Rightarrow> int \<Rightarrow> int \<Rightarrow> int list \<Rightarrow> fmat list \<Rightarrow>
   py_error + fmat list" where
  "fill_resolution R nw ndiag iwave nlo nhi speclo specmin [] Rd = Inr Rd"
| "fill_resolution R nw ndiag iwave nlo nhi speclo specmin (ispec # rest) Rd =
     (let a = nw * (ispec - speclo);
          b = nw * (ispec - speclo + 1);
          Rx = map (py_slice a b) (py_slice a b R);
          k = nat (ispec - specmin)
      in case fill_bands Rx ndiag iwave nlo [nlo..nw - nhi - 1] (Rd ! k) of
           Inl e \<Rightarrow> Inl e
         | Inr Rd1 \<Rightarrow> fill_resolution R nw ndiag iwave nlo nhi speclo specmin rest (Rd[k := Rd1]))"

text \<open>The loop that finds \<^verbatim>\<open>ndiag\<close>, over three spectra and three wavelengths.\<close>

fun ndiag_loop :: "psf \<Rightarrow> real \<Rightarrow> (int \<times> real) list \<Rightarrow> int \<Rightarrow> py_error + int" where
  "ndiag_loop psf dw [] ndiag = Inr ndiag"
| "ndiag_loop psf dw ((ispec, w) # rest) ndiag =
     (case int_round_div (9 * wdisp psf ispec w) dw of
        Inl e \<Rightarrow> Inl e
      | Inr k \<Rightarrow> ndiag_loop psf dw rest (max ndiag k))"

text \<open>
  One iteration of \<^verbatim>\<open>for iwave in range(0, len(wavelengths), wavesize)\<close>, in two parts.
  The first part finds the sub-image and the border of the patch and calls
  \<^verbatim>\<open>ex2d_patch\<close>; it gives the results with \<^verbatim>\<open>nlo\<close>, \<^verbatim>\<open>nhi\<close> and \<^verbatim>\<open>nw\<close>.
\<close>

definition ex2d_extract ::
  "engine \<Rightarrow> solver \<Rightarrow> eigh_fn \<Rightarrow> mat \<Rightarrow> mat \<Rightarrow> psf \<Rightarrow> int \<Rightarrow> int \<Rightarrow> vec \<Rightarrow>
   (int \<times> int \<times> int \<times> int) option \<Rightarrow> real \<Rightarrow> bool \<Rightarrow> int \<Rightarrow> real \<Rightarrow> int \<Rightarrow> int \<Rightarrow>
   py_error + patch_result \<times> int \<times> int \<times> int" where
  "ex2d_extract engine solve eigh img imageivar psf specmin nspec wavelengths xyrange
                regularize ndecorr wavesize dw ndiag iwave =
     (let speclo = specmin;
          spechi = specmin + nspec;
          specrange = (speclo, spechi);
          nwave = length wavelengths;
          wlo = wavelengths ! nat iwave;
          whi = (if iwave + wavesize < int nwave then wavelengths ! nat (iwave + wavesize)
                 else last wavelengths);
          (xlo, xhi, ylo, yhi) = xyrange_of psf specrange (wlo, whi);
          (y0, y1, x0, x1) =
            (case xyrange of
               None \<Rightarrow> (ylo, yhi, xlo, xhi)
             | Some (xmin, xmax, ymin, ymax) \<Rightarrow> (ylo - ymin, yhi - ymin, xlo - xmin, xhi - xmin));
          subimg = map (py_slice x0 x1) (py_slice y0 y1 img);
          subivar = map (py_slice x0 x1) (py_slice y0 y1 imageivar);
          (ny, nx) = pix_shape psf speclo wlo;
          ymin = ylo - int ny + 2;
          ymax = yhi + int ny - 2
      in case int_trunc_div (wlo - wavelength psf speclo ymin) dw of
           Inl e \<Rightarrow> Inl e
         | Inr tlo \<Rightarrow>
         (case int_trunc_div (wavelength psf speclo ymax - whi) dw of
           Inl e \<Rightarrow> Inl e
         | Inr thi \<Rightarrow>
             let nlo = max (tlo - 1) ndiag;
                 nhi = max (thi - 1) ndiag;
                 ww = np_arange (wlo - real_of_int nlo * dw)
                        (whi + (real_of_int nhi + 0.5) * dw) dw;
                 nw = int (length ww)
             in case (case engine of
                        Iterative \<Rightarrow>
                          ex2d_patch solve eigh subimg subivar psf speclo (spechi - speclo) ww
                            (xlo, xhi, ylo, yhi) 0 False
                      | Direct \<Rightarrow>
                          ex2d_patch_matrix solve eigh subimg subivar psf speclo
                            (spechi - speclo) ww (Some (xlo, xhi, ylo, yhi)) regularize ndecorr) of
                  Inl e \<Rightarrow> Inl e
                | Inr results \<Rightarrow> Inr (results, nlo, nhi, nw)))"

text \<open>
  The second part fills the output arrays \<^verbatim>\<open>(flux, ivar, Rd)\<close> from the results of the
  patch. The right-hand side \<^verbatim>\<open>specflux[keep, nlo:-nhi]\<close> is evaluated before the index
  \<^verbatim>\<open>iispec[keep]\<close> of the target.
\<close>

definition ex2d_stitch ::
  "engine \<Rightarrow> int \<Rightarrow> int \<Rightarrow> nat \<Rightarrow> int \<Rightarrow> int \<Rightarrow> bool list \<Rightarrow> int \<Rightarrow>
   patch_result \<times> int \<times> int \<times> int \<Rightarrow> fmat \<times> fmat \<times> fmat list \<Rightarrow>
   py_error + fmat \<times> fmat \<times> fmat list" where
  "ex2d_stitch engine specmin nspec nwave wavesize ndiag keep iwave extracted outputs =
     (let (results, nlo, nhi, nw) = extracted;
          (flux, ivar, Rd) = outputs;
          speclo = specmin;
          spechi = specmin + nspec;
          cols = patch_columns nwave wavesize iwave;
          iispec = [speclo - specmin..spechi - specmin - 1]
      in case bool_index keep (res_flux results) of
           Inl e \<Rightarrow> Inl e
         | Inr fluxrows \<Rightarrow>
         (case bool_index keep iispec of
           Inl e \<Rightarrow> Inl e
         | Inr rows \<Rightarrow>
         (case assign_columns rows cols (map (py_slice nlo (- nhi)) fluxrows) flux of
           Inl e \<Rightarrow> Inl e
         | Inr flux' \<Rightarrow>
         (case bool_index keep (res_ivar results) of
           Inl e \<Rightarrow> Inl e
         | Inr ivarrows \<Rightarrow>
         (case assign_columns rows cols (map (py_slice nlo (- nhi)) ivarrows) ivar of
           Inl e \<Rightarrow> Inl e
         | Inr ivar' \<Rightarrow>
         (case engine of
            Direct \<Rightarrow> Inr (flux', ivar', Rd)
          | Iterative \<Rightarrow>
              (case bool_index keep [speclo..spechi - 1] of
                 Inl e \<Rightarrow> Inl e
               | Inr ispecs \<Rightarrow>
                   (case fill_resolution (res_R results) nw ndiag iwave nlo nhi speclo
                           specmin ispecs Rd of
                      Inl e \<Rightarrow> Inl e
                    | Inr Rd' \<Rightarrow> Inr (flux', ivar', Rd')))))))))"

definition ex2d_patch_step ::
  "engine \<Rightarrow> solver \<Rightarrow> eigh_fn \<Rightarrow> mat \<Rightarrow> mat \<Rightarrow> psf \<Rightarrow> int \<Rightarrow> int \<Rightarrow> vec \<Rightarrow>
   (int \<times> int \<times> int \<times> int) option \<Rightarrow> real \<Rightarrow> bool \<Rightarrow> int \<Rightarrow> real \<Rightarrow> int \<Rightarrow> bool list \<Rightarrow>
   int \<Rightarrow> fmat \<times> fmat \<times> fmat list \<Rightarrow> py_error + fmat \<times> fmat \<times> fmat list" where
  "ex2d_patch_step engine solve eigh img imageivar psf specmin nspec wavelengths xyrange
                   regularize ndecorr wavesize dw ndiag keep iwave outputs =
     (case ex2d_extract engine solve eigh img imageivar psf specmin nspec wavelengths xyrange
             regularize ndecorr wavesize dw ndiag iwave of
        Inl e \<Rightarrow> Inl e
      | Inr extracted \<Rightarrow>
          ex2d_stitch engine specmin nspec (length wavelengths) wavesize ndiag keep iwave
            extracted outputs)"

fun run_patches ::
  "(int \<Rightarrow> 's \<Rightarrow> py_error + 's) \<Rightarrow> int list \<Rightarrow> 's \<Rightarrow> py_error + 's" where
  "run_patches step [] s = Inr s"
| "run_patches step (iwave # rest) s =
     (case step iwave s of Inl e \<Rightarrow> Inl e | Inr s' \<Rightarrow> run_patches step rest s')"

text \<open>
  The first step of \<^verbatim>\<open>ex2d\<close>: the step \<^verbatim>\<open>dw = wavelengths[1] - wavelengths[0]\<close> and the
  check of the grid with \<^verbatim>\<open>np.allclose\<close>. An array with fewer than two wavelengths has
  no index 1.
\<close>

definition linear_grid_error :: py_error where
  "linear_grid_error = ValueError ''ex2d currently only supports linear wavelength grids''"

definition ex2d_grid_step :: "vec \<Rightarrow> py_error + real" where
  "ex2d_grid_step wavelengths =
     (if length wavelengths < 2
      then Inl (IndexError ''index 1 is out of bounds for axis 0'')
      else
        let dw = wavelengths ! 1 - wavelengths ! 0
        in if np_allclose dw (np_diff wavelengths) then Inr dw
           else Inl linear_grid_error)"

definition ex2d ::
  "engine \<Rightarrow> solver \<Rightarrow> eigh_fn \<Rightarrow> mat \<Rightarrow> mat \<Rightarrow> psf \<Rightarrow> int \<Rightarrow> int \<Rightarrow> vec \<Rightarrow>
   (int \<times> int \<times> int \<times> int) option \<Rightarrow> real \<Rightarrow> bool \<Rightarrow> int \<Rightarrow> int \<Rightarrow> int \<Rightarrow>
   py_error + fmat \<times> fmat \<times> fmat list" where
  "ex2d engine solve eigh img imageivar psf specmin nspec wavelengths xyrange regularize ndecorr
        bundlesize nsubbundles wavesize =
     (case ex2d_grid_step wavelengths of
        Inl e \<Rightarrow> Inl e
      | Inr dw \<Rightarrow>
             let keep = replicate 25 True;
                 nwave = length wavelengths
             in if nspec < 0 then Inl (ValueError ''negative dimensions are not allowed'')
                else
                  let flux = replicate (nat nspec) (replicate nwave (Fin 0));
                      ivar = replicate (nat nspec) (replicate nwave (Fin 0))
                  in case ndiag_loop psf dw
                            (List.product [specmin, specmin + nspec div 2, specmin + nspec - 1]
                               [wmin psf, 0.5 * (wmin psf + wmax psf), wmax psf]) 0 of
                       Inl e \<Rightarrow> Inl e
                     | Inr ndiag0 \<Rightarrow>
                         let wmid = (wmin_all psf + wmax_all psf) / 2;
                             spotsize = pix_shape psf 0 wmid;
                             ndiag = min ndiag0 (min (int (fst spotsize div 2))
                                                     (int (snd spotsize div 2)));
                             Rd = replicate (nat nspec)
                                    (replicate (nat (2 * ndiag + 1)) (replicate nwave (Fin 0)))
                         in (case py_range (int nwave) wavesize of
                               Inl e \<Rightarrow> Inl e
                             | Inr iwaves \<Rightarrow>
                                 (case run_patches
                                         (ex2d_patch_step engine solve eigh img imageivar psf
                                            specmin nspec wavelengths xyrange regularize ndecorr
                                            wavesize dw ndiag keep)
                                         iwaves (flux, ivar, Rd) of
                                    Inl e \<Rightarrow> Inl e
                                  | Inr (flux1, ivar1, Rd1) \<Rightarrow>
                                      if engine = Direct \<and> iwaves = []
                                      then Inl (UnboundLocalError
                                             ''local variable deltat referenced before assignment'')
                                      else
                                        let dwave = np_gradient wavelengths
                                        in Inr (map (\<lambda>row. map2 (\<lambda>x d. fmul x (frecip (Fin d)))
                                                            row dwave) flux1,
                                                map (\<lambda>row. map2 (\<lambda>x d. fmul x (Fin (d * d)))
                                                            row dwave) ivar1,
                                                Rd1))))"


text \<open>
  The results of a patch of 25 spectra and four wavelengths, of which the two in the
  middle are the core; only the fields that the stitching step of the direct-solve
  driver reads are filled.
\<close>

definition seam_patch_result :: "real \<Rightarrow> real \<Rightarrow> patch_result" where
  "seam_patch_result a b =
     \<lparr>res_flux = replicate 25 [Fin 0, Fin a, Fin b, Fin 0],
      res_ivar = replicate 25 [Fin 0, Fin 1, Fin 1, Fin 0],
      res_R = [], res_xflux = [], res_A = [], res_iCov = [],
      res_options = \<lparr>opt_specmin = 0, opt_nspec = 25, opt_wavelengths = [],
                       opt_xyrange = (0, 0, 0, 0), opt_regularize = 0, opt_ndecorr = False\<rparr>\<rparr>"

section \<open>Properties of split_bundle\<close>

lemma swap_pass_mset: "n \<le> int (length xs) \<Longrightarrow> mset (swap_pass i n xs) = mset xs"
proof (induction i n xs rule: swap_pass.induct)
  case (1 i n xs)
  show ?case
  proof (cases "int i < n - 1")
    case True
    then have b: "i < length xs" "Suc i < length xs" using "1.prems" by auto
    let ?ys = "(if xs ! i > xs ! Suc i then xs[Suc i := xs ! i, i := xs ! Suc i] else xs)"
    have l: "length ?ys = length xs" by simp
    have m: "mset ?ys = mset xs" using b by (simp add: mset_swap)
    have "mset (swap_pass (Suc i) n ?ys) = mset ?ys"
      using "1.IH"[OF True] "1.prems" l by simp
    then show ?thesis using True m by (subst swap_pass.simps) simp
  next
    case False
    then show ?thesis by (subst swap_pass.simps) simp
  qed
qed

lemma populate_concat: "\<forall>x\<in>set xs. 0 < x \<Longrightarrow> concat (populate imin xs) = [imin..imin + sum_list xs - 1]"
proof (induction xs arbitrary: imin)
  case Nil then show ?case by simp
next
  case (Cons x xs)
  have "0 \<le> sum_list xs" using Cons.prems by (simp add: sum_list_nonneg less_imp_le)
  moreover have "0 < x" using Cons.prems by simp
  ultimately have "[imin..imin + (x + sum_list xs) - 1] = [imin..imin + x - 1] @ [imin + x..imin + x + sum_list xs - 1]"
    using upto_split2[of imin "imin + x - 1" "imin + (x + sum_list xs) - 1"] by (simp add: add.assoc)
  then show ?case using Cons by (simp add: add.assoc)
qed

lemma populate_length: "length (populate imin xs) = length xs"
  by (induction xs arbitrary: imin) auto

lemma populate_nth: "k < length xs \<Longrightarrow> populate imin xs ! k = [imin + sum_list (take k xs)..imin + sum_list (take (Suc k) xs) - 1]"
proof (induction xs arbitrary: imin k)
  case Nil then show ?case by simp
next
  case (Cons x xs)
  then show ?case by (cases k) (auto simp: add.assoc)
qed

lemma sizes_props:
  assumes "0 < n" "n \<le> b"
  shows "\<exists>sizes. array_split_sizes (max 0 b) n = Inr sizes \<and> length sizes = nat n \<and>
     sum_list sizes = b \<and> set sizes \<subseteq> {b div n, b div n + 1} \<and> 0 < b div n"
proof -
  let ?q = "b div n" and ?e = "b mod n"
  have e: "0 \<le> ?e" "?e < n" using assms by auto
  have q: "0 < ?q" using assms by (simp add: pos_imp_zdiv_pos_iff)
  let ?s = "replicate (nat ?e) (?q + 1) @ replicate (nat (n - ?e)) ?q"
  have 1: "array_split_sizes (max 0 b) n = Inr ?s"
    using assms by (simp add: array_split_sizes_def Let_def max_def)
  have 2: "length ?s = nat n" using e by simp
  have "sum_list ?s = ?e * (?q + 1) + (n - ?e) * ?q"
    using e by (simp add: sum_list_replicate)
  also have "\<dots> = n * ?q + ?e" by (simp add: algebra_simps)
  also have "\<dots> = b" by simp
  finally have 3: "sum_list ?s = b" .
  have 4: "set ?s \<subseteq> {?q, ?q + 1}" by auto
  show ?thesis using 1 2 3 4 q by blast
qed

lemma swap_pass_length: "length (swap_pass i n xs) = length xs"
proof (induction i n xs rule: swap_pass.induct)
  case (1 i n xs)
  show ?case
  proof (cases "int i < n - 1")
    case True
    then show ?thesis using "1.IH"[OF True] by (subst swap_pass.simps) simp
  next
    case False then show ?thesis by (subst swap_pass.simps) simp
  qed
qed

lemma populate_map_length: "map length (populate imin xs) = map nat xs"
  by (induction xs arbitrary: imin) auto

lemma populate_nonempty: "\<forall>x\<in>set xs. 0 < x \<Longrightarrow> \<forall>ii\<in>set (populate imin xs). ii \<noteq> []"
  by (induction xs arbitrary: imin) auto


lemma extract_all_Inr:
  "\<forall>ii\<in>set iis. ii \<noteq> [] \<Longrightarrow> extract_all b iis = Inr (map (\<lambda>ii. (if hd ii > 0 then [hd ii - 1] else []) @ ii @ (if last ii < b - 1 then [last ii + 1] else [])) iis)"
  by (induction iis) (auto simp: extract_one_def)

lemma split_bundle_returns:
  assumes "0 < n" "n \<le> b"
  shows "\<exists>nps. split_bundle b n = Inr (populate 0 nps, map (\<lambda>ii. (if hd ii > 0 then [hd ii - 1] else []) @ ii @ (if last ii < b - 1 then [last ii + 1] else [])) (populate 0 nps)) \<and>
           length nps = nat n \<and> sum_list nps = b \<and> set nps \<subseteq> {b div n, b div n + 1} \<and>
           0 < b div n"
proof -
  obtain sizes where s: "array_split_sizes (max 0 b) n = Inr sizes" "length sizes = nat n"
      "sum_list sizes = b" "set sizes \<subseteq> {b div n, b div n + 1}" "0 < b div n"
    using sizes_props[OF assms] by blast
  let ?nps = "swap_pass 0 n sizes"
  have m: "mset ?nps = mset sizes" using s(2) assms by (intro swap_pass_mset) simp
  have l: "length ?nps = nat n" using s(2) by (simp add: swap_pass_length)
  have "set ?nps = set sizes" using m by (metis set_mset_mset)
  then have st: "set ?nps \<subseteq> {b div n, b div n + 1}" using s(4) by simp
  have "sum_list ?nps = sum_list sizes" using m by (metis sum_mset_sum_list)
  then have su: "sum_list ?nps = b" using s(3) by simp
  have pos: "\<forall>x\<in>set ?nps. 0 < x" using st s(5) by auto
  have ne: "\<forall>ii\<in>set (populate 0 ?nps). ii \<noteq> []" by (rule populate_nonempty[OF pos])
  have "split_bundle b n = Inr (populate 0 ?nps, map (\<lambda>ii. (if hd ii > 0 then [hd ii - 1] else []) @ ii @ (if last ii < b - 1 then [last ii + 1] else [])) (populate 0 ?nps))"
    using assms s(1) extract_all_Inr[OF ne, of b] by (simp add: split_bundle_def Let_def)
  then show ?thesis using l su st s(5) by blast
qed

lemma split_bundle_Inr_pos: "split_bundle b n = Inr r \<Longrightarrow> 0 < n \<and> n \<le> b"
  unfolding split_bundle_def array_split_sizes_def
  by (simp split: if_splits)

lemma split_bundle_props:
  assumes "split_bundle b n = Inr (subs, exts)"
  shows "distinct (concat subs) \<and> set (concat subs) = {0..<b} \<and>
       (\<forall>x\<in>set subs. \<forall>y\<in>set subs. length x \<le> length y + 1) \<and>
       length subs = nat n \<and> length exts = length subs \<and>
       (\<forall>k<length subs. subs ! k \<noteq> [] \<and> exts ! k =
           (if hd (subs ! k) = 0 then [] else [hd (subs ! k) - 1]) @ subs ! k @
           (if last (subs ! k) = b - 1 then [] else [last (subs ! k) + 1]))"
proof -
  have nb: "0 < n" "n \<le> b" using split_bundle_Inr_pos[OF assms] by auto
  obtain nps where r: "split_bundle b n = Inr (populate 0 nps, map (\<lambda>ii. (if hd ii > 0 then [hd ii - 1] else []) @ ii @ (if last ii < b - 1 then [last ii + 1] else [])) (populate 0 nps))"
     and l: "length nps = nat n" and su: "sum_list nps = b"
     and st: "set nps \<subseteq> {b div n, b div n + 1}" and q: "0 < b div n"
    using split_bundle_returns[OF nb] by blast
  have subs: "subs = populate 0 nps" and exts: "exts = map (\<lambda>ii. (if hd ii > 0 then [hd ii - 1] else []) @ ii @ (if last ii < b - 1 then [last ii + 1] else [])) subs"
    using r assms by auto
  have pos: "\<forall>x\<in>set nps. 0 < x" using st q by auto
  have c: "concat subs = [0..b - 1]" using populate_concat[OF pos, of 0] su subs by simp
  have 1: "distinct (concat subs)" using c by simp
  have 2: "set (concat subs) = {0..<b}" using c by auto
  have ml: "map length subs = map nat nps" using subs by (simp add: populate_map_length)
  have 3: "\<forall>x\<in>set subs. \<forall>y\<in>set subs. length x \<le> length y + 1"
  proof (intro ballI)
    fix x y assume "x \<in> set subs" "y \<in> set subs"
    then have "length x \<in> set (map length subs)" "length y \<in> set (map length subs)" by auto
    then have "length x \<in> nat ` set nps" "length y \<in> nat ` set nps" using ml by auto
    then obtain u v where "u \<in> set nps" "length x = nat u" "v \<in> set nps" "length y = nat v" by auto
    moreover from this have "u \<in> {b div n, b div n + 1}" "v \<in> {b div n, b div n + 1}"
      using st by blast+
    ultimately show "length x \<le> length y + 1" using q by auto
  qed
  have 4: "length subs = nat n" using subs l by (simp add: populate_length)
  have 5: "length exts = length subs" using exts by simp
  have ne: "\<forall>ii\<in>set subs. ii \<noteq> []" using populate_nonempty[OF pos] subs by simp
  have 6: "\<forall>k<length subs. subs ! k \<noteq> [] \<and> exts ! k =
           (if hd (subs ! k) = 0 then [] else [hd (subs ! k) - 1]) @ subs ! k @
           (if last (subs ! k) = b - 1 then [] else [last (subs ! k) + 1])"
  proof (intro allI impI)
    fix k assume k: "k < length subs"
    let ?ii = "subs ! k"
    have n0: "?ii \<noteq> []" using ne k by simp
    have "?ii \<in> set subs" using k by simp
    then have "set ?ii \<subseteq> set (concat subs)" by auto
    then have sub: "set ?ii \<subseteq> {0..<b}" using 2 by simp
    have "hd ?ii \<in> set ?ii" "last ?ii \<in> set ?ii" using n0 by auto
    then have h: "0 \<le> hd ?ii" "last ?ii \<le> b - 1" using sub by auto
    have "exts ! k = (if hd ?ii > 0 then [hd ?ii - 1] else []) @ ?ii @ (if last ?ii < b - 1 then [last ?ii + 1] else [])" using exts k by simp
    then show "?ii \<noteq> [] \<and> exts ! k =
           (if hd ?ii = 0 then [] else [hd ?ii - 1]) @ ?ii @
           (if last ?ii = b - 1 then [] else [last ?ii + 1])"
      using n0 h by auto
  qed
  show ?thesis by (intro conjI) (rule 1 2 3 4 5 6)+
qed

text \<open>
  Claim C3. \<^verbatim>\<open>split_bundle(10, 3)\<close> returns the subgroups \<open>[[0,1,2],[3,4,5],[6,7,8,9]]\<close>
  and the extract ranges \<open>[[0,1,2,3],[2,3,4,5,6],[5,6,7,8,9]]\<close>. For every bundle size
  and every \<open>n \<le> bundlesize\<close>: the call returns whenever \<open>n\<close> is positive (for
  \<open>n \<le> 0\<close> numpy's \<^verbatim>\<open>array_split\<close> raises, so nothing is returned), and whatever it
  returns has disjoint subgroups whose union is \<open>[0, bundlesize)\<close>, whose sizes differ
  by at most one, and each extract range is its subgroup with one more index on the
  low side unless the subgroup starts at 0 and one more on the high side unless it
  ends at \<open>bundlesize - 1\<close>.
\<close>

theorem split_bundle_spec:
  assumes "n \<le> bundlesize"
  shows "split_bundle 10 3 =
           Inr ([[0,1,2],[3,4,5],[6,7,8,9]], [[0,1,2,3],[2,3,4,5,6],[5,6,7,8,9]]) \<and>
         (0 < n \<longrightarrow> (\<exists>subs exts. split_bundle bundlesize n = Inr (subs, exts))) \<and>
         (\<forall>subs exts. split_bundle bundlesize n = Inr (subs, exts) \<longrightarrow>
            distinct (concat subs) \<and> set (concat subs) = {0..<bundlesize} \<and>
            (\<forall>x\<in>set subs. \<forall>y\<in>set subs. length x \<le> length y + 1) \<and>
            length subs = nat n \<and> length exts = length subs \<and>
            (\<forall>k<length subs. subs ! k \<noteq> [] \<and> exts ! k =
               (if hd (subs ! k) = 0 then [] else [hd (subs ! k) - 1]) @ subs ! k @
               (if last (subs ! k) = bundlesize - 1 then [] else [last (subs ! k) + 1])))"
proof (intro conjI)
  show "split_bundle 10 3 =
           Inr ([[0,1,2],[3,4,5],[6,7,8,9]], [[0,1,2,3],[2,3,4,5,6],[5,6,7,8,9]])"
    by code_simp
  show "0 < n \<longrightarrow> (\<exists>subs exts. split_bundle bundlesize n = Inr (subs, exts))"
    using split_bundle_returns[of n bundlesize] assms by blast
  show "\<forall>subs exts. split_bundle bundlesize n = Inr (subs, exts) \<longrightarrow>
            distinct (concat subs) \<and> set (concat subs) = {0..<bundlesize} \<and>
            (\<forall>x\<in>set subs. \<forall>y\<in>set subs. length x \<le> length y + 1) \<and>
            length subs = nat n \<and> length exts = length subs \<and>
            (\<forall>k<length subs. subs ! k \<noteq> [] \<and> exts ! k =
               (if hd (subs ! k) = 0 then [] else [hd (subs ! k) - 1]) @ subs ! k @
               (if last (subs ! k) = bundlesize - 1 then [] else [last (subs ! k) + 1]))"
    by (intro allI impI) (rule split_bundle_props)
qed

theorem split_bundle_spec_witness:
  "(2::int) \<le> 7 \<and> split_bundle 7 2 = Inr ([[0,1,2],[3,4,5,6]], [[0,1,2,3],[2,3,4,5,6]]) \<and>
   distinct (concat [[0,1,2],[3,4,5,6::int]]) \<and>
   set (concat [[0,1,2],[3,4,5,6::int]]) = {0..<7}"
proof -
  have h: "(2::int) \<le> 7" by simp
  have e: "split_bundle 7 2 = Inr ([[0,1,2],[3,4,5,6]], [[0,1,2,3],[2,3,4,5,6]])"
    by code_simp
  note p = split_bundle_spec[OF h, THEN conjunct2, THEN conjunct2, rule_format, OF e]
  show ?thesis
    by (intro conjI) (rule h e p[THEN conjunct1] p[THEN conjunct2, THEN conjunct1])+
qed

section \<open>Properties of resolution_from_icov\<close>

lemma sqrt_9: "sqrt 9 = 3"
  by (rule real_sqrt_unique) auto

lemma fsum_Nil [simp]: "fsum [] = Fin 0" by (simp add: fsum_def)
lemma fsum_Cons [simp]: "fsum (x # xs) = fadd x (fsum xs)" by (simp add: fsum_def)

lemma resolution_from_icov_Inr:
  assumes "resolution_from_icov eigh icov decorr = Inr (R, ivar)"
  shows "\<exists>Q. R = resolution_of (norm_vector_of Q) Q \<and> ivar = map (\<lambda>n. fmul n n) (norm_vector_of Q)"
  using assms unfolding resolution_from_icov_def Let_def
  by (auto split: prod.splits sum.splits if_splits)

section \<open>The decorrelation blocks of resolution_from_icov\<close>


lemma eigen_compose_returns: "w \<noteq> [] \<Longrightarrow> \<exists>ws. eigen_compose w v i s = Inr (recompose v ws)"
  unfolding eigen_compose_def np_max_def Let_def
  by (simp only: if_False sum.case) (rule exI, rule refl)










lemma upt_2: "[0..<2] = [0, 1]"
  by (simp add: upt_rec)


lemma identity_decorr_wrong_sum:
  "resolution_from_icov eigh_identity [[1, 0], [0, 1]] (Some [1, 2]) =
     Inl (RuntimeError ''The list of spectral block sizes must sum to the matrix size'')"
  by (simp add: resolution_from_icov_def eigh_identity_def symmetrize_def np_sum_int64_def
        int64_wrap_def Let_def)




section \<open>Properties of ex2d_patch\<close>

lemma one_pixel_matrix_eval:
  "ex2d_patch_matrix solve_1x1 eigh_1x1 [[1]] [[9]] one_pixel_psf 0 1 [5000] (Some (0, 1, 0, 1)) 0 False =
     Inr \<lparr>res_flux = [[Fin 1]], res_ivar = [[Fin 6]], res_R = [[Fin 1]], res_xflux = [[Fin 1]],
          res_A = [[1]], res_iCov = [[9]],
          res_options = \<lparr>opt_specmin = 0, opt_nspec = 1, opt_wavelengths = [5000],
                           opt_xyrange = (0, 1, 0, 1), opt_regularize = 0, opt_ndecorr = False\<rparr>\<rparr>"
  by (simp add: ex2d_patch_matrix_def patch_region_def one_pixel_psf_def regularized_system_def
        column_sums_def diag_mul_def np_max_def mat_mul_def mat_T_def ncols_of_def mat_vec_def dot_def
        solve_1x1_def
        reshape2_def patch_norm_vector_def patch_resolution_def patch_sqrt_icov_def eigh_1x1_def
        recompose_def norm_vector_of_def resolution_of_def fmat_vec_def fdot_def fsum_def sqrt_9
        Let_def)

lemma one_pixel_resolution_eval:
  "resolution_from_icov eigh_1x1 [[9]] None = Inr ([[Fin 1]], [Fin 9])"
  by (simp add: resolution_from_icov_def eigh_1x1_def symmetrize_def eigen_compose_def np_max_def
        recompose_def threshold_def norm_vector_of_def resolution_of_def fsum_def sqrt_9 Let_def)

lemma one_pixel_norm_vector: "patch_norm_vector eigh_1x1 [[9]] = [Fin 3]"
  by (simp add: patch_norm_vector_def patch_sqrt_icov_def eigh_1x1_def recompose_def
        norm_vector_of_def fsum_def sqrt_9)

text \<open>
  Claim C1 at a patch of one pixel and one flux bin: image \<open>[[1]]\<close>, inverse variance
  \<open>[[9]]\<close>, projection matrix \<open>[[1]]\<close>. The normal-equations matrix is \<open>[[9]]\<close> and the
  normalization vector is \<open>[3]\<close>. The direct-solve \<^verbatim>\<open>ex2d_patch\<close> returns the inverse
  variance \<open>[[6]]\<close>, the normalization times two (\<^verbatim>\<open>norm_vector_gpu * 2\<close>), where the
  claim has its square \<open>[[9]]\<close>; \<^verbatim>\<open>resolution_from_icov\<close> returns 9 for the same matrix.
\<close>

theorem ex2d_patch_matrix_ivar_is_twice_norm:
  "map_sum id res_iCov
     (ex2d_patch_matrix solve_1x1 eigh_1x1 [[1]] [[9]] one_pixel_psf 0 1 [5000]
        (Some (0, 1, 0, 1)) 0 False) = Inr [[9]] \<and>
   patch_norm_vector eigh_1x1 [[9]] = [Fin 3] \<and>
   map_sum id res_ivar
     (ex2d_patch_matrix solve_1x1 eigh_1x1 [[1]] [[9]] one_pixel_psf 0 1 [5000]
        (Some (0, 1, 0, 1)) 0 False) = Inr [[Fin 6]] \<and>
   map (\<lambda>n. fmul n n) [Fin 3] = [Fin 9] \<and>
   map_sum id snd (resolution_from_icov eigh_1x1 [[9]] None) = Inr [Fin 9]"
  by (simp add: one_pixel_matrix_eval one_pixel_norm_vector one_pixel_resolution_eval)

text \<open>
  The half of claim C1 that holds: the inverse variance \<^verbatim>\<open>resolution_from_icov\<close> returns
  is the elementwise square of the normalization vector.
\<close>

lemma resolution_from_icov_ivar_is_norm_squared:
  assumes "resolution_from_icov eigh icov decorr = Inr (R, ivar)"
  shows "\<exists>Q. R = resolution_of (norm_vector_of Q) Q \<and> ivar = map (\<lambda>n. fmul n n) (norm_vector_of Q)"
  by (rule resolution_from_icov_Inr[OF assms])

text \<open>
  Without \<^verbatim>\<open>decorr\<close> the matrix \<open>Q\<close> is the square root that \<^verbatim>\<open>eigen_compose\<close> recomposes
  from the eigendecomposition of the symmetrized matrix.
\<close>

lemma resolution_from_icov_ivar_of_sqrt:
  assumes "eigh (symmetrize icov) = (w, v)"
    and "eigen_compose w v False True = Inr Q"
  shows "resolution_from_icov eigh icov None =
           Inr (resolution_of (norm_vector_of Q) Q, map (\<lambda>n. fmul n n) (norm_vector_of Q))"
  using assms by (simp add: resolution_from_icov_def Let_def)

section \<open>The unregularized system of the direct-solve patch\<close>

lemma sqrt_25: "sqrt 25 = 5"
  by (rule real_sqrt_unique) auto

lemma sqrt_100: "sqrt 100 = 10"
  by (rule real_sqrt_unique) auto

lemma map2_nth:
  assumes "length xs = length ys"
  shows "map2 f xs ys = map (\<lambda>i. f (xs ! i) (ys ! i)) [0..<length xs]"
  using assms by (intro nth_equalityI) auto

lemma map_by_nth: "map f xs = map (\<lambda>i. f (xs ! i)) [0..<length xs]"
  by (intro nth_equalityI) auto

lemma length_diag_mul: "length (diag_mul w A) = min (length w) (length A)"
  by (simp add: diag_mul_def)

lemma diag_mul_nth:
  assumes "i < length A" "length w = length A" "k < length (A ! i)"
  shows "diag_mul w A ! i ! k = w ! i * A ! i ! k"
  using assms by (simp add: diag_mul_def)

lemma dot_columns:
  assumes len: "length w = length A" and rect: "\<forall>row\<in>set A. length row = n" and k: "k < n"
  shows "dot (map (\<lambda>row. row ! j) A) (map (\<lambda>row. row ! k) (diag_mul w A)) =
         sum_list (map (\<lambda>i. A ! i ! j * w ! i * A ! i ! k) [0..<length A])"
proof -
  have l: "length (map (\<lambda>row. row ! j) A) = length (map (\<lambda>row. row ! k) (diag_mul w A))"
    using len by (simp add: length_diag_mul)
  have "map2 (*) (map (\<lambda>row. row ! j) A) (map (\<lambda>row. row ! k) (diag_mul w A)) =
        map (\<lambda>i. map (\<lambda>row. row ! j) A ! i * map (\<lambda>row. row ! k) (diag_mul w A) ! i)
            [0..<length A]"
    using map2_nth[OF l, of "(*)"] by simp
  also have "\<dots> = map (\<lambda>i. A ! i ! j * w ! i * A ! i ! k) [0..<length A]"
  proof (rule map_cong[OF refl])
    fix i assume "i \<in> set [0..<length A]"
    then have i: "i < length A" by simp
    then have "length (A ! i) = n" using rect by simp
    then have "diag_mul w A ! i ! k = w ! i * A ! i ! k"
      using diag_mul_nth[OF i len] k by simp
    then show "map (\<lambda>row. row ! j) A ! i * map (\<lambda>row. row ! k) (diag_mul w A) ! i =
               A ! i ! j * w ! i * A ! i ! k"
      using i len by (simp add: length_diag_mul)
  qed
  finally show ?thesis by (simp add: dot_def)
qed

lemma mat_mul_normal_matrix:
  assumes "length w = length A" and "\<forall>row\<in>set A. length row = n"
  shows "mat_mul n (mat_T n A) (diag_mul w A) = normal_matrix n A w"
  using dot_columns[OF assms]
  by (simp add: mat_mul_def mat_T_def normal_matrix_def)

lemma dot_column_rhs:
  assumes "length w = length A" and "length pix = length w"
  shows "dot (map (\<lambda>row. row ! j) A) (map2 (*) w pix) =
         sum_list (map (\<lambda>i. A ! i ! j * w ! i * pix ! i) [0..<length A])"
proof -
  have l: "length (map (\<lambda>row. row ! j) A) = length (map2 (*) w pix)"
    using assms by simp
  have "map2 (*) (map (\<lambda>row. row ! j) A) (map2 (*) w pix) =
        map (\<lambda>i. map (\<lambda>row. row ! j) A ! i * map2 (*) w pix ! i) [0..<length A]"
    using map2_nth[OF l, of "(*)"] by simp
  also have "\<dots> = map (\<lambda>i. A ! i ! j * w ! i * pix ! i) [0..<length A]"
    using assms by (intro map_cong[OF refl]) simp
  finally show ?thesis by (simp add: dot_def)
qed

lemma mat_vec_normal_rhs:
  assumes "length w = length A" and "length pix = length w"
  shows "mat_vec (mat_T n A) (map2 (*) w pix) = normal_rhs n A w pix"
  using dot_column_rhs[OF assms]
  by (simp add: mat_vec_def mat_T_def normal_rhs_def)

lemma column_sums_flux_weight:
  assumes len: "length w = length A" and rect: "\<forall>row\<in>set A. length row = n"
  shows "column_sums n (diag_mul w A) = map (flux_weight A w) [0..<n]"
proof -
  have "sum_list (map (\<lambda>row. row ! j) (diag_mul w A)) = flux_weight A w j" if j: "j < n" for j
  proof -
    have "map (\<lambda>row. row ! j) (diag_mul w A) =
          map (\<lambda>i. diag_mul w A ! i ! j) [0..<length (diag_mul w A)]"
      by (rule map_by_nth)
    also have "\<dots> = map (\<lambda>i. diag_mul w A ! i ! j) [0..<length A]"
      using len by (simp add: length_diag_mul)
    also have "\<dots> = map (\<lambda>i. w ! i * A ! i ! j) [0..<length A]"
    proof (rule map_cong[OF refl])
      fix i assume "i \<in> set [0..<length A]"
      then have i: "i < length A" by simp
      then have "length (A ! i) = n" using rect by simp
      then show "diag_mul w A ! i ! j = w ! i * A ! i ! j"
        using diag_mul_nth[OF i len] j by simp
    qed
    finally show ?thesis by (simp add: flux_weight_def)
  qed
  then show ?thesis by (simp add: column_sums_def mat_T_def)
qed

lemma ncols_of_rect: "\<forall>row\<in>set A. length row = n \<Longrightarrow> ncols_of n A = n"
  by (cases A) (simp_all add: ncols_of_def)

lemma regularized_system_lengths:
  assumes "regularized_system regularize nflux A w pix = Inr (pix', Ax, wx)"
    and "length wx = length Ax" and "length pix' = length wx"
  shows "length w = length A \<and> length pix = length w"
  using assms
  by (auto simp: regularized_system_def Let_def split: sum.splits if_splits)

lemma regularized_system_unregularized:
  assumes len: "length w = length A" and rect: "\<forall>row\<in>set A. length row = nat nflux"
    and weights: "\<forall>j<nat nflux. Max (set (map (flux_weight A w) [0..<nat nflux])) / 10 ^ 4
                    \<le> flux_weight A w j"
    and s: "regularized_system 0 nflux A w pix = Inr s"
  shows "s = (pix, A, w)"
proof -
  have fw: "column_sums (ncols_of (nat nflux) A) (diag_mul w A) =
            map (flux_weight A w) [0..<nat nflux]"
    using column_sums_flux_weight[OF len rect] ncols_of_rect[OF rect] by simp
  have "\<not> flux_weight A w j < 1 / 10 ^ 4 * Max (set (map (flux_weight A w) [0..<nat nflux]))"
    if "j < nat nflux" for j
    using weights that by (simp add: not_less)
  then have low: "\<forall>x\<in>set (map (flux_weight A w) [0..<nat nflux]).
               \<not> x < 1 / 10 ^ 4 * Max (set (map (flux_weight A w) [0..<nat nflux]))"
    by auto
  show ?thesis
    using s low unfolding regularized_system_def fw np_max_def Let_def
    by (auto simp: list_ex_iff split: if_splits)
qed

text \<open>
  Claim C5. When the direct-solve \<^verbatim>\<open>ex2d_patch\<close> is called with \<^verbatim>\<open>regularize = 0\<close>, no
  flux bin has a weight below \<open>10\<^sup>-\<^sup>4\<close> times the largest weight, and it returns, then no
  identity block was stacked onto the system, the matrix handed to the solver is the
  matrix of the plain weighted normal equations, entry \<open>(j, k)\<close> the sum over the pixels
  of \<open>A[i][j] * ivar[i] * A[i][k]\<close>, the right-hand side has the entries the sum of
  \<open>A[i][j] * ivar[i] * pix[i]\<close>, and the raw flux returned is the solver's solution of
  that system, reshaped to \<open>[nspec, nwave]\<close>. (The projection matrix has one row per
  pixel and \<open>n = nspec * nwave\<close> columns. The sums are those of the exact arithmetic of
  the model; the rounding of the products and sums of the program is what the claim's
  ``to numerical precision'' leaves room for.)
\<close>

theorem ex2d_patch_matrix_unregularized:
  assumes reg: "regularize = 0"
    and region: "patch_region psf (specmin, specmin + nspec) (hd wavelengths, last wavelengths)
                   xyrange0 image0 ivar0 = (xyrange, img, ivar)"
    and A: "A = projection_matrix psf (specmin, specmin + nspec) wavelengths xyrange"
    and n: "n = nat nspec * length wavelengths"
    and rect: "\<forall>row\<in>set A. length row = n"
    and weights: "\<forall>j<n. Max (set (map (flux_weight A (concat ivar)) [0..<n])) / 10 ^ 4
                    \<le> flux_weight A (concat ivar) j"
    and ret: "ex2d_patch_matrix solve eigh image0 ivar0 psf specmin nspec wavelengths xyrange0
                regularize ndecorr = Inr r"
  shows "regularized_system regularize (nspec * int (length wavelengths)) A (concat ivar)
           (concat img) = Inr (concat img, A, concat ivar) \<and>
         res_iCov r = normal_matrix n A (concat ivar) \<and>
         (\<exists>f0. unregularized_normal_equations_solve solve n A (concat ivar) (concat img) = Inr f0 \<and>
               reshape2 (nat nspec) (length wavelengths) f0 = Inr (res_xflux r))"
proof -
  obtain xmin xmax ymin ymax where xy: "xyrange = (xmin, xmax, ymin, ymax)"
    by (cases xyrange) auto
  let ?nf = "nspec * int (length wavelengths)"
  let ?w = "concat ivar" and ?pix = "concat img"
  from ret have w0: "wavelengths \<noteq> []"
    by (auto simp: ex2d_patch_matrix_def)
  obtain s where s: "regularized_system 0 ?nf A ?w ?pix = Inr s"
    using ret w0 reg region A xy
    by (cases "regularized_system 0 ?nf A ?w ?pix")
       (auto simp: ex2d_patch_matrix_def Let_def split: if_splits)
  obtain pix' Ax wx where s3: "s = (pix', Ax, wx)" by (cases s) auto
  have chk: "length wx = length Ax \<and> length pix' = length wx"
    using ret w0 reg region A xy s s3
    by (auto simp: ex2d_patch_matrix_def Let_def split: if_splits)
  have lens: "length ?w = length A \<and> length ?pix = length ?w"
    using regularized_system_lengths[of 0 ?nf A ?w ?pix pix' Ax wx] s s3 chk by simp
  have nn: "0 \<le> ?nf"
    using s by (auto simp: regularized_system_def Let_def split: sum.splits if_splits)
  then have nsp: "0 \<le> nspec" using w0 by (simp add: zero_le_mult_iff)
  have nat_nf: "nat ?nf = n" using n nsp by (simp add: nat_mult_distrib)
  have s': "s = (?pix, A, ?w)"
    using regularized_system_unregularized[of ?w A ?nf ?pix s] lens rect weights s nat_nf
    by simp
  have iCov: "mat_mul n (mat_T n A) (diag_mul ?w A) = normal_matrix n A ?w"
    using mat_mul_normal_matrix lens rect by blast
  have y: "mat_vec (mat_T n A) (map2 (*) ?w ?pix) = normal_rhs n A ?w ?pix"
    using mat_vec_normal_rhs lens by blast
  obtain f0 where f0: "solve (normal_matrix n A ?w) (normal_rhs n A ?w ?pix) = Inr f0"
    using ret w0 reg region A xy s s' lens n iCov y
    by (cases "solve (normal_matrix n A ?w) (normal_rhs n A ?w ?pix)")
       (auto simp: ex2d_patch_matrix_def Let_def split: if_splits)
  obtain f where f: "reshape2 (nat nspec) (length wavelengths) f0 = Inr f"
    using ret w0 reg region A xy s s' lens n iCov y f0
    by (cases "reshape2 (nat nspec) (length wavelengths) f0")
       (auto simp: ex2d_patch_matrix_def Let_def split: if_splits)
  have r: "res_xflux r = f \<and> res_iCov r = normal_matrix n A ?w"
    using ret w0 reg region A xy s s' lens n iCov y f0 f
    by (auto simp: ex2d_patch_matrix_def Let_def split: if_splits sum.splits)
  show ?thesis
    using s s' reg f0 f r by (simp add: unregularized_normal_equations_solve_def)
qed

lemma three_pixel_matrix_eval:
  "map_sum id (\<lambda>r. (res_xflux r, res_iCov r))
     (ex2d_patch_matrix solve_2x2 eigh_2x2_example [[1, 3, 2]] [[16, 36, 37]] three_pixel_psf
        0 1 [5000, 5001] (Some (0, 3, 0, 1)) 0 False) =
   Inr ([[Fin 1, Fin 2]], [[52, 36], [36, 73]])"
  by (simp add: ex2d_patch_matrix_def patch_region_def three_pixel_psf_def regularized_system_def
        column_sums_def diag_mul_def np_max_def mat_mul_def mat_T_def ncols_of_def mat_vec_def
        dot_def solve_2x2_def reshape2_def patch_norm_vector_def patch_resolution_def
        patch_sqrt_icov_def eigh_2x2_example_def recompose_def norm_vector_of_def
        resolution_of_def fmat_vec_def fdot_def sqrt_25 sqrt_100 upt_2 Let_def)

text \<open>
  The theorem at the patch of three pixels and two flux bins: the weights of the bins
  are 52 and 73, the matrix of the normal equations is \<open>[[52, 36], [36, 73]]\<close>, the
  right-hand side \<open>[124, 182]\<close>, and the raw flux \<open>[1, 2]\<close>.
\<close>

theorem ex2d_patch_matrix_unregularized_witness:
  "patch_region three_pixel_psf (0, 0 + 1) (hd [5000, 5001], last [5000, 5001])
     (Some (0, 3, 0, 1)) [[1, 3, 2]] [[16, 36, 37]] = ((0, 3, 0, 1), [[1, 3, 2]], [[16, 36, 37]]) \<and>
   map (flux_weight [[1, 0], [1, 1], [0, 1]] [16, 36, 37]) [0..<2] = [52, 73] \<and>
   map_sum id (\<lambda>r. (res_xflux r, res_iCov r))
     (ex2d_patch_matrix solve_2x2 eigh_2x2_example [[1, 3, 2]] [[16, 36, 37]] three_pixel_psf
        0 1 [5000, 5001] (Some (0, 3, 0, 1)) 0 False) =
     Inr ([[Fin 1, Fin 2]], [[52, 36], [36, 73]]) \<and>
   regularized_system 0 (1 * int (length [5000, 5001 :: real])) [[1, 0], [1, 1], [0, 1]]
     (concat [[16, 36, 37]]) (concat [[1, 3, 2]]) =
     Inr (concat [[1, 3, 2]], [[1, 0], [1, 1], [0, 1]], concat [[16, 36, 37]]) \<and>
   normal_matrix 2 [[1, 0], [1, 1], [0, 1]] [16, 36, 37] = [[52, 36], [36, 73]] \<and>
   normal_rhs 2 [[1, 0], [1, 1], [0, 1]] [16, 36, 37] [1, 3, 2] = [124, 182] \<and>
   unregularized_normal_equations_solve solve_2x2 2 [[1, 0], [1, 1], [0, 1]]
     (concat [[16, 36, 37]]) (concat [[1, 3, 2]]) = Inr [Fin 1, Fin 2]"
proof -
  let ?A = "[[1, 0], [1, 1], [0, 1 :: real]]"
  let ?call = "ex2d_patch_matrix solve_2x2 eigh_2x2_example [[1, 3, 2]] [[16, 36, 37]]
                 three_pixel_psf 0 1 [5000, 5001] (Some (0, 3, 0, 1)) 0 False"
  have region: "patch_region three_pixel_psf (0, 0 + 1) (hd [5000, 5001], last [5000, 5001])
     (Some (0, 3, 0, 1)) [[1, 3, 2]] [[16, 36, 37]] = ((0, 3, 0, 1), [[1, 3, 2]], [[16, 36, 37]])"
    by (simp add: patch_region_def)
  have A: "?A = projection_matrix three_pixel_psf (0, 0 + 1) [5000, 5001] (0, 3, 0, 1)"
    by (simp add: three_pixel_psf_def)
  have n: "(2 :: nat) = nat 1 * length [5000, 5001 :: real]" by simp
  have rect: "\<forall>row\<in>set ?A. length row = 2" by simp
  have fw: "map (flux_weight ?A [16, 36, 37]) [0..<2] = [52, 73]"
    by (simp add: flux_weight_def upt_2 upt_rec[of 0 3] upt_rec[of 1 3] upt_rec[of 2 3])
  have weights: "\<forall>j<2. Max (set (map (flux_weight ?A (concat [[16, 36, 37]])) [0..<2])) / 10 ^ 4
                    \<le> flux_weight ?A (concat [[16, 36, 37]]) j"
  proof (intro allI impI)
    fix j :: nat assume "j < 2"
    then have "j = 0 \<or> j = 1" by auto
    moreover have "flux_weight ?A [16, 36, 37] 0 = 52" "flux_weight ?A [16, 36, 37] 1 = 73"
      using fw by (simp_all add: upt_2)
    ultimately show "Max (set (map (flux_weight ?A (concat [[16, 36, 37]])) [0..<2])) / 10 ^ 4
                    \<le> flux_weight ?A (concat [[16, 36, 37]]) j"
      using fw by auto
  qed
  obtain r where r: "?call = Inr r" and rx: "res_xflux r = [[Fin 1, Fin 2]]"
    and ri: "res_iCov r = [[52, 36], [36, 73]]"
    using three_pixel_matrix_eval by (cases ?call) auto
  note t = ex2d_patch_matrix_unregularized[OF refl region A n rect weights r]
  have c1: "regularized_system 0 (1 * int (length [5000, 5001 :: real])) ?A
     (concat [[16, 36, 37]]) (concat [[1, 3, 2]]) =
     Inr (concat [[1, 3, 2]], ?A, concat [[16, 36, 37]])"
    using t[THEN conjunct1] by simp
  have c2: "normal_matrix 2 ?A [16, 36, 37] = [[52, 36], [36, 73]]"
    using t[THEN conjunct2, THEN conjunct1] ri by simp
  have c3: "normal_rhs 2 ?A [16, 36, 37] [1, 3, 2] = [124, 182]"
    by (simp add: normal_rhs_def upt_2 upt_rec[of 0 3] upt_rec[of 1 3] upt_rec[of 2 3])
  obtain f0 where f0: "unregularized_normal_equations_solve solve_2x2 2 ?A
         (concat [[16, 36, 37]]) (concat [[1, 3, 2]]) = Inr f0"
    and rs: "reshape2 (nat 1) (length [5000, 5001 :: real]) f0 = Inr (res_xflux r)"
    using t[THEN conjunct2, THEN conjunct2] by blast
  have "f0 = [Fin 1, Fin 2]"
    using f0 c2 c3 by (simp add: unregularized_normal_equations_solve_def solve_2x2_def Let_def)
  then have c4: "unregularized_normal_equations_solve solve_2x2 2 ?A
         (concat [[16, 36, 37]]) (concat [[1, 3, 2]]) = Inr [Fin 1, Fin 2]"
    using f0 by simp
  show ?thesis by (intro conjI) (rule region fw three_pixel_matrix_eval c1 c2 c3 c4)+
qed

section \<open>The columns written by the patches of ex2d\<close>

lemma int_le_div_iff:
  assumes "0 < (c::int)"
  shows "(a \<le> b div c) = (a * c \<le> b)"
proof
  assume "a \<le> b div c"
  then have "a * c \<le> (b div c) * c" using assms by (simp add: mult_right_mono)
  moreover have "b = (b div c) * c + b mod c" by simp
  moreover have "0 \<le> b mod c" using assms by simp
  ultimately show "a * c \<le> b" by linarith
next
  assume "a * c \<le> b"
  then have "(a * c) div c \<le> b div c" using assms by (rule zdiv_mono1)
  then show "a \<le> b div c" using assms by simp
qed

lemma py_range_pos:
  assumes "0 < wavesize"
  shows "py_range (int nwave) wavesize =
           Inr (map (\<lambda>k. int k * wavesize) [0..<nat ((int nwave + wavesize - 1) div wavesize)])"
  using assms by (simp add: py_range_def)

lemma py_range_count:
  assumes "0 < wavesize"
  shows "(k < nat ((int nwave + wavesize - 1) div wavesize)) = (int k * wavesize < int nwave)"
proof -
  have "(k < nat ((int nwave + wavesize - 1) div wavesize))
          = (int k < (int nwave + wavesize - 1) div wavesize)"
    by (rule zless_nat_eq_int_zless)
  also have "\<dots> = (int k + 1 \<le> (int nwave + wavesize - 1) div wavesize)"
    by linarith
  also have "\<dots> = ((int k + 1) * wavesize \<le> int nwave + wavesize - 1)"
    by (rule int_le_div_iff[OF assms])
  also have "\<dots> = (int k * wavesize < int nwave)"
  proof -
    have "(int k + 1) * wavesize = int k * wavesize + wavesize" by (simp only: distrib_right mult_1)
    then show ?thesis by linarith
  qed
  finally show ?thesis .
qed


















lemma bool_index_all_True:
  assumes "length xs = n"
  shows "bool_index (replicate n True) xs = Inr xs"
proof -
  have "filter fst (zip (replicate n True) xs) = zip (replicate n True) xs"
    by (rule filter_True) (auto dest: set_zip_leftD)
  then have "map snd (filter fst (zip (replicate n True) xs)) = xs"
    using assms by simp
  then show ?thesis using assms by (simp add: bool_index_def)
qed





section \<open>The regularization argument in the iterative-solve variant\<close>

lemma three_pixel_lsqr_eval:
  "map_sum id (\<lambda>r. (res_flux r, res_ivar r, res_R r, res_xflux r))
     (ex2d_patch solve_2x2 eigh_2x2_example [[1, 3, 2]] [[16, 36, 37]] three_pixel_psf 0 1
        [5000, 5001] (0, 3, 0, 1) 0 False) =
   Inr ([[Fin (29 / 23), Fin (94 / 53)]], [[Fin (25 / 2116), Fin (25 / 2809)]],
        [[Fin (17 / 23), Fin (6 / 23)], [Fin (12 / 53), Fin (41 / 53)]], [[Fin 1, Fin 2]])"
  by (simp add: ex2d_patch_def three_pixel_psf_def diag_mul_def mat_mul_def mat_T_def ncols_of_def
        mat_vec_def dot_def solve_2x2_def np_reshape_def reshape2_def patch_norm_vector_def
        patch_resolution_def patch_sqrt_icov_def eigh_2x2_example_def patch_decorrelated_cov_def
        fmat_mul_def recompose_def norm_vector_of_def resolution_of_def fmat_vec_def fdot_def
        sqrt_25 sqrt_100 upt_2 Let_def)

text \<open>
  Claim C9. In the iterative-solve variant the flux, the inverse variance, the
  resolution matrix and the raw flux that \<^verbatim>\<open>ex2d_patch\<close> returns, or the exception it
  raises, are the same for any two values of \<^verbatim>\<open>regularize\<close>; the value is echoed in the
  options of the result. The driver \<^verbatim>\<open>ex2d\<close> of that variant does not pass its
  \<^verbatim>\<open>regularize\<close> (nor its \<^verbatim>\<open>ndecorr\<close>) on, and gives the same result for any two values.
\<close>

theorem ex2d_patch_ignores_regularize:
  "map_sum id (\<lambda>r. (res_flux r, res_ivar r, res_R r, res_xflux r))
     (ex2d_patch lsqr eigh img ivar psf specmin nspec wavelengths xyrange regularize1 ndecorr) =
   map_sum id (\<lambda>r. (res_flux r, res_ivar r, res_R r, res_xflux r))
     (ex2d_patch lsqr eigh img ivar psf specmin nspec wavelengths xyrange regularize2 ndecorr) \<and>
   map_sum id (\<lambda>r. opt_regularize (res_options r))
     (ex2d_patch lsqr eigh img ivar psf specmin nspec wavelengths xyrange regularize1 ndecorr) =
   map_sum id (\<lambda>r. regularize1)
     (ex2d_patch lsqr eigh img ivar psf specmin nspec wavelengths xyrange regularize1 ndecorr) \<and>
   ex2d Iterative lsqr eigh img ivar psf specmin nspec wavelengths xyrange0 regularize1 ndecorr1
     bundlesize nsubbundles wavesize =
   ex2d Iterative lsqr eigh img ivar psf specmin nspec wavelengths xyrange0 regularize2 ndecorr2
     bundlesize nsubbundles wavesize"
proof (intro conjI)
  show "map_sum id (\<lambda>r. (res_flux r, res_ivar r, res_R r, res_xflux r))
     (ex2d_patch lsqr eigh img ivar psf specmin nspec wavelengths xyrange regularize1 ndecorr) =
   map_sum id (\<lambda>r. (res_flux r, res_ivar r, res_R r, res_xflux r))
     (ex2d_patch lsqr eigh img ivar psf specmin nspec wavelengths xyrange regularize2 ndecorr)"
    by (simp add: ex2d_patch_def Let_def split: sum.splits)
  show "map_sum id (\<lambda>r. opt_regularize (res_options r))
     (ex2d_patch lsqr eigh img ivar psf specmin nspec wavelengths xyrange regularize1 ndecorr) =
   map_sum id (\<lambda>r. regularize1)
     (ex2d_patch lsqr eigh img ivar psf specmin nspec wavelengths xyrange regularize1 ndecorr)"
    by (simp add: ex2d_patch_def Let_def split: sum.splits)
  have "ex2d_extract Iterative lsqr eigh img ivar psf specmin nspec wavelengths xyrange0
          regularize1 ndecorr1 wavesize dw ndiag iwave =
        ex2d_extract Iterative lsqr eigh img ivar psf specmin nspec wavelengths xyrange0
          regularize2 ndecorr2 wavesize dw ndiag iwave" for dw ndiag iwave
    unfolding ex2d_extract_def engine.case by (rule refl)
  then have st: "ex2d_patch_step Iterative lsqr eigh img ivar psf specmin nspec wavelengths xyrange0
          regularize1 ndecorr1 wavesize dw ndiag keep =
        ex2d_patch_step Iterative lsqr eigh img ivar psf specmin nspec wavelengths xyrange0
          regularize2 ndecorr2 wavesize dw ndiag keep" for dw ndiag keep
    by (intro ext) (simp add: ex2d_patch_step_def)
  show "ex2d Iterative lsqr eigh img ivar psf specmin nspec wavelengths xyrange0 regularize1
     ndecorr1 bundlesize nsubbundles wavesize =
   ex2d Iterative lsqr eigh img ivar psf specmin nspec wavelengths xyrange0 regularize2 ndecorr2
     bundlesize nsubbundles wavesize"
    unfolding ex2d_def st by (rule refl)
qed

text \<open>
  The theorem at the patch of three pixels and two flux bins, with the values 0 and 5 of
  \<^verbatim>\<open>regularize\<close>.
\<close>

theorem ex2d_patch_ignores_regularize_witness:
  "map_sum id (\<lambda>r. (res_flux r, res_ivar r, res_R r, res_xflux r))
     (ex2d_patch solve_2x2 eigh_2x2_example [[1, 3, 2]] [[16, 36, 37]] three_pixel_psf 0 1
        [5000, 5001] (0, 3, 0, 1) 5 False) =
   Inr ([[Fin (29 / 23), Fin (94 / 53)]], [[Fin (25 / 2116), Fin (25 / 2809)]],
        [[Fin (17 / 23), Fin (6 / 23)], [Fin (12 / 53), Fin (41 / 53)]], [[Fin 1, Fin 2]]) \<and>
   map_sum id (\<lambda>r. opt_regularize (res_options r))
     (ex2d_patch solve_2x2 eigh_2x2_example [[1, 3, 2]] [[16, 36, 37]] three_pixel_psf 0 1
        [5000, 5001] (0, 3, 0, 1) 5 False) = Inr 5"
proof -
  note t = ex2d_patch_ignores_regularize[of solve_2x2 eigh_2x2_example "[[1, 3, 2]]"
             "[[16, 36, 37]]" three_pixel_psf 0 1 "[5000, 5001]" "(0, 3, 0, 1)" 5 False 0]
  have a: "map_sum id (\<lambda>r. (res_flux r, res_ivar r, res_R r, res_xflux r))
     (ex2d_patch solve_2x2 eigh_2x2_example [[1, 3, 2]] [[16, 36, 37]] three_pixel_psf 0 1
        [5000, 5001] (0, 3, 0, 1) 5 False) =
   Inr ([[Fin (29 / 23), Fin (94 / 53)]], [[Fin (25 / 2116), Fin (25 / 2809)]],
        [[Fin (17 / 23), Fin (6 / 23)], [Fin (12 / 53), Fin (41 / 53)]], [[Fin 1, Fin 2]])"
    using t[THEN conjunct1] three_pixel_lsqr_eval by simp
  then obtain r where r: "ex2d_patch solve_2x2 eigh_2x2_example [[1, 3, 2]] [[16, 36, 37]]
        three_pixel_psf 0 1 [5000, 5001] (0, 3, 0, 1) 5 False = Inr r"
    by (cases "ex2d_patch solve_2x2 eigh_2x2_example [[1, 3, 2]] [[16, 36, 37]]
        three_pixel_psf 0 1 [5000, 5001] (0, 3, 0, 1) 5 False") auto
  have b: "map_sum id (\<lambda>r. opt_regularize (res_options r))
     (ex2d_patch solve_2x2 eigh_2x2_example [[1, 3, 2]] [[16, 36, 37]] three_pixel_psf 0 1
        [5000, 5001] (0, 3, 0, 1) 5 False) = Inr 5"
    using t[THEN conjunct2, THEN conjunct1] r by simp
  show ?thesis by (intro conjI) (rule a b)+
qed

section \<open>The keep mask of ex2d\<close>

lemma py_range_first:
  assumes "0 < wavesize" and "0 < nwave"
  shows "\<exists>rest. py_range (int nwave) wavesize = Inr (0 # rest)"
proof -
  have "0 < nat ((int nwave + wavesize - 1) div wavesize)"
    using py_range_count[OF assms(1), of 0 nwave] assms(2) by simp
  then obtain m where m: "nat ((int nwave + wavesize - 1) div wavesize) = Suc m"
    by (cases "nat ((int nwave + wavesize - 1) div wavesize)") auto
  have "[0..<Suc m] = 0 # [Suc 0..<Suc m]" by (simp add: upt_rec)
  then show ?thesis
    unfolding py_range_pos[OF assms(1)] m by simp
qed

lemma ex2d_stitch_wrong_nspec:
  assumes "nspec \<noteq> 25"
  shows "ex2d_stitch engine specmin nspec nwave wavesize ndiag (replicate 25 True) iwave
           extracted outputs =
         Inl (IndexError ''boolean index did not match indexed array along dimension 0'')"
proof -
  obtain results nlo nhi nw where e: "extracted = (results, nlo, nhi, nw)"
    by (cases extracted) auto
  obtain flux ivar Rd where out: "outputs = (flux, ivar, Rd)" by (cases outputs) auto
  have len: "length [specmin - specmin..specmin + nspec - specmin - 1] \<noteq> 25"
    using assms by simp
  have b2: "bool_index (replicate 25 True) [specmin - specmin..specmin + nspec - specmin - 1] =
            Inl (IndexError ''boolean index did not match indexed array along dimension 0'')"
    using len by (simp add: bool_index_def)
  show ?thesis
  proof (cases "length (res_flux results) = 25")
    case False
    then have "bool_index (replicate 25 True) (res_flux results) =
            Inl (IndexError ''boolean index did not match indexed array along dimension 0'')"
      by (simp add: bool_index_def)
    then show ?thesis unfolding e out ex2d_stitch_def Let_def prod.case by simp
  next
    case True
    then have "bool_index (replicate 25 True) (res_flux results) = Inr (res_flux results)"
      by (rule bool_index_all_True)
    then show ?thesis unfolding e out ex2d_stitch_def Let_def prod.case b2 by simp
  qed
qed

lemma ex2d_patch_step_wrong_nspec:
  assumes "nspec \<noteq> 25"
  shows "\<exists>e. ex2d_patch_step engine solve eigh img imageivar psf specmin nspec wavelengths
               xyrange regularize ndecorr wavesize dw ndiag (replicate 25 True) iwave outputs
             = Inl e"
  by (cases "ex2d_extract engine solve eigh img imageivar psf specmin nspec wavelengths
               xyrange regularize ndecorr wavesize dw ndiag iwave")
     (simp_all add: ex2d_patch_step_def ex2d_stitch_wrong_nspec[OF assms])

lemma ex2d_grid_step_length: "ex2d_grid_step wavelengths = Inr dw \<Longrightarrow> 2 \<le> length wavelengths"
  by (auto simp: ex2d_grid_step_def split: if_splits)

lemma ex2d_wrong_nspec_fails:
  assumes n: "nspec \<noteq> 25" and ws: "0 < wavesize"
  shows "\<exists>e. ex2d engine solve eigh img imageivar psf specmin nspec wavelengths xyrange
               regularize ndecorr bundlesize nsubbundles wavesize = Inl e"
proof (cases "ex2d_grid_step wavelengths")
  case (Inl e)
  then show ?thesis by (simp add: ex2d_def)
next
  case (Inr dw)
  then have "0 < length wavelengths" using ex2d_grid_step_length by fastforce
  then obtain rest where r: "py_range (int (length wavelengths)) wavesize = Inr (0 # rest)"
    using py_range_first[OF ws] by blast
  show ?thesis
  proof (cases "nspec < 0")
    case True
    then show ?thesis using Inr by (simp add: ex2d_def)
  next
    case False
    show ?thesis
    proof (cases "ndiag_loop psf dw
                    (List.product [specmin, specmin + nspec div 2, specmin + nspec - 1]
                       [wmin psf, 0.5 * (wmin psf + wmax psf), wmax psf]) 0")
      case (Inl e)
      then show ?thesis using Inr False by (simp add: ex2d_def)
    next
      case nd: (Inr ndiag0)
      define ndiag where "ndiag = min ndiag0
         (min (int (fst (pix_shape psf 0 ((wmin_all psf + wmax_all psf) / 2)) div 2))
              (int (snd (pix_shape psf 0 ((wmin_all psf + wmax_all psf) / 2)) div 2)))"
      define s0 where "s0 = (replicate (nat nspec) (replicate (length wavelengths) (Fin 0)),
         replicate (nat nspec) (replicate (length wavelengths) (Fin 0)),
         replicate (nat nspec)
           (replicate (nat (2 * ndiag + 1)) (replicate (length wavelengths) (Fin 0))))"
      obtain e where e: "ex2d_patch_step engine solve eigh img imageivar psf specmin nspec
               wavelengths xyrange regularize ndecorr wavesize dw ndiag (replicate 25 True) 0 s0
             = Inl e"
        using ex2d_patch_step_wrong_nspec[OF n] by blast
      have "run_patches (ex2d_patch_step engine solve eigh img imageivar psf specmin nspec
               wavelengths xyrange regularize ndecorr wavesize dw ndiag (replicate 25 True))
              (0 # rest) s0 = Inl e"
        using e by simp
      then show ?thesis
        using Inr False nd r unfolding ex2d_def Let_def ndiag_def s0_def by simp
    qed
  qed
qed

text \<open>
  Claim C10, as the code has it. The mask \<^verbatim>\<open>keep\<close> has 25 entries. When \<^verbatim>\<open>nspec\<close> is
  not 25, the stitching step of a patch raises IndexError: at
  \<^verbatim>\<open>specflux[keep, nlo:-nhi]\<close> when the patch returned another number of spectra than
  25, and otherwise at \<^verbatim>\<open>iispec[keep]\<close>, whose array has \<^verbatim>\<open>nspec\<close> entries. So a patch
  whose extraction returns ends in that IndexError, and \<^verbatim>\<open>ex2d\<close> called with a positive
  \<^verbatim>\<open>wavesize\<close>, which has at least one patch, does not complete.
\<close>

theorem ex2d_keep_mask_needs_25_spectra:
  assumes "nspec \<noteq> 25"
  shows "ex2d_stitch engine specmin nspec (length wavelengths) wavesize ndiag (replicate 25 True)
           iwave extracted outputs =
           Inl (IndexError ''boolean index did not match indexed array along dimension 0'') \<and>
         (\<forall>ext. ex2d_extract engine solve eigh img imageivar psf specmin nspec wavelengths
                  xyrange regularize ndecorr wavesize dw ndiag iwave = Inr ext \<longrightarrow>
               ex2d_patch_step engine solve eigh img imageivar psf specmin nspec wavelengths
                  xyrange regularize ndecorr wavesize dw ndiag (replicate 25 True) iwave outputs =
               Inl (IndexError ''boolean index did not match indexed array along dimension 0'')) \<and>
         (0 < wavesize \<longrightarrow>
            (\<exists>e. ex2d engine solve eigh img imageivar psf specmin nspec wavelengths xyrange
                   regularize ndecorr bundlesize nsubbundles wavesize = Inl e))"
proof (intro conjI allI impI)
  show "ex2d_stitch engine specmin nspec (length wavelengths) wavesize ndiag (replicate 25 True)
           iwave extracted outputs =
           Inl (IndexError ''boolean index did not match indexed array along dimension 0'')"
    by (rule ex2d_stitch_wrong_nspec[OF assms])
next
  fix ext
  assume "ex2d_extract engine solve eigh img imageivar psf specmin nspec wavelengths
                  xyrange regularize ndecorr wavesize dw ndiag iwave = Inr ext"
  then show "ex2d_patch_step engine solve eigh img imageivar psf specmin nspec wavelengths
                  xyrange regularize ndecorr wavesize dw ndiag (replicate 25 True) iwave outputs =
               Inl (IndexError ''boolean index did not match indexed array along dimension 0'')"
    by (simp add: ex2d_patch_step_def ex2d_stitch_wrong_nspec[OF assms])
next
  assume "0 < wavesize"
  then show "\<exists>e. ex2d engine solve eigh img imageivar psf specmin nspec wavelengths xyrange
                   regularize ndecorr bundlesize nsubbundles wavesize = Inl e"
    by (rule ex2d_wrong_nspec_fails[OF assms])
qed

text \<open>
  The theorem at three spectra: the stitching of a patch that returned 25 spectra fails
  at \<^verbatim>\<open>iispec[keep]\<close>, and \<^verbatim>\<open>ex2d\<close> with \<^verbatim>\<open>wavesize = 1\<close> does not complete.
\<close>

theorem ex2d_keep_mask_needs_25_spectra_witness:
  "(3 :: int) \<noteq> 25 \<and>
   ex2d_stitch Direct 0 3 (length [5000, 5001 :: real]) 1 0 (replicate 25 True) 0
     (seam_patch_result 7 8, 1, 1, 4)
     (replicate 3 [Fin 0, Fin 0], replicate 3 [Fin 0, Fin 0], []) =
     Inl (IndexError ''boolean index did not match indexed array along dimension 0'') \<and>
   (\<exists>e. ex2d Direct solve_1x1 eigh_1x1 [[1]] [[9]] one_pixel_psf 0 3 [5000, 5001] None 0 False
          25 1 1 = Inl e)"
proof -
  have n: "(3 :: int) \<noteq> 25" by simp
  note t = ex2d_keep_mask_needs_25_spectra[OF n]
  have a: "ex2d_stitch Direct 0 3 (length [5000, 5001 :: real]) 1 0 (replicate 25 True) 0
     (seam_patch_result 7 8, 1, 1, 4)
     (replicate 3 [Fin 0, Fin 0], replicate 3 [Fin 0, Fin 0], []) =
     Inl (IndexError ''boolean index did not match indexed array along dimension 0'')"
    by (rule t[THEN conjunct1])
  have b: "\<exists>e. ex2d Direct solve_1x1 eigh_1x1 [[1]] [[9]] one_pixel_psf 0 3 [5000, 5001] None 0
          False 25 1 1 = Inl e"
    using t[where wavesize = 1, THEN conjunct2, THEN conjunct2] by simp
  show ?thesis by (intro conjI) (rule n a b)+
qed

text \<open>
  The claim has \<^verbatim>\<open>ex2d\<close> fail for every call with \<^verbatim>\<open>nspec\<close> other than 25. With a
  negative \<^verbatim>\<open>wavesize\<close> the loop over the patches has no iteration and nothing is
  stitched: the iterative-solve \<^verbatim>\<open>ex2d\<close> called for three spectra and two wavelengths
  returns the arrays of zeros.
\<close>

theorem ex2d_completes_without_patches:
  "ex2d Iterative solve_1x1 eigh_1x1 [[1]] [[9]] one_pixel_psf 0 3 [5000, 5001] None 0 False
     25 1 (- 1) =
   Inr (replicate 3 [Fin 0, Fin 0], replicate 3 [Fin 0, Fin 0], replicate 3 [[Fin 0, Fin 0]])"
  by (simp add: ex2d_def ex2d_grid_step_def np_allclose_def np_diff_def one_pixel_psf_def
        int_round_div_def round_half_even_def py_range_def np_gradient_def upt_2 Let_def)

section \<open>The check of the wavelength grid\<close>

lemma int_round_div_error: "int_round_div x dw = Inl e \<Longrightarrow> e \<noteq> linear_grid_error"
  by (auto simp: int_round_div_def linear_grid_error_def split: if_splits)

lemma int_trunc_div_error: "int_trunc_div x dw = Inl e \<Longrightarrow> e \<noteq> linear_grid_error"
  by (auto simp: int_trunc_div_def linear_grid_error_def split: if_splits)

lemma ndiag_loop_error: "ndiag_loop psf dw xs n = Inl e \<Longrightarrow> e \<noteq> linear_grid_error"
proof (induction xs arbitrary: n)
  case Nil
  then show ?case by simp
next
  case (Cons p xs)
  obtain ispec w where p: "p = (ispec, w)" by (cases p)
  show ?case
  proof (cases "int_round_div (9 * wdisp psf ispec w) dw")
    case (Inl e1)
    then have "e = e1" using Cons.prems p by simp
    then show ?thesis using int_round_div_error[OF Inl] by simp
  next
    case (Inr k)
    then have "ndiag_loop psf dw xs (max n k) = Inl e" using Cons.prems p by simp
    then show ?thesis by (rule Cons.IH)
  qed
qed

lemma py_range_error: "py_range n step = Inl e \<Longrightarrow> e \<noteq> linear_grid_error"
  by (auto simp: py_range_def linear_grid_error_def split: if_splits)

lemma np_max_error: "np_max xs = Inl e \<Longrightarrow> e \<noteq> linear_grid_error"
  by (auto simp: np_max_def linear_grid_error_def split: if_splits)

lemma reshape2_error: "reshape2 r c xs = Inl e \<Longrightarrow> e \<noteq> linear_grid_error"
  by (auto simp: reshape2_def linear_grid_error_def split: if_splits)

lemma np_reshape_error: "np_reshape r c xs = Inl e \<Longrightarrow> e \<noteq> linear_grid_error"
  by (auto simp: np_reshape_def linear_grid_error_def dest: reshape2_error split: if_splits)

lemma regularized_system_error:
  "regularized_system regularize nflux A w pix = Inl e \<Longrightarrow> e \<noteq> linear_grid_error"
  unfolding regularized_system_def Let_def
  by (auto simp: linear_grid_error_def dest: np_max_error split: sum.splits if_splits)

lemma bool_index_error: "bool_index keep xs = Inl e \<Longrightarrow> e \<noteq> linear_grid_error"
  by (auto simp: bool_index_def linear_grid_error_def split: if_splits)

lemma assign_columns_error:
  "assign_columns rows cols vals target = Inl e \<Longrightarrow> e \<noteq> linear_grid_error"
  by (auto simp: assign_columns_def linear_grid_error_def split: if_splits)

lemma band_column_error: "band_column Rx j ndiag = Inl e \<Longrightarrow> e \<noteq> linear_grid_error"
  by (auto simp: band_column_def linear_grid_error_def split: if_splits)

lemma write_band_error: "write_band band col Rd1 = Inl e \<Longrightarrow> e \<noteq> linear_grid_error"
  by (auto simp: write_band_def linear_grid_error_def split: if_splits)

lemma fill_bands_error:
  "fill_bands Rx ndiag iwave nlo js Rd1 = Inl e \<Longrightarrow> e \<noteq> linear_grid_error"
proof (induction js arbitrary: Rd1)
  case Nil
  then show ?case by simp
next
  case (Cons j js)
  show ?case
  proof (cases "band_column Rx j ndiag")
    case (Inl e1)
    then have "e = e1" using Cons.prems by simp
    then show ?thesis using band_column_error[OF Inl] by simp
  next
    case b: (Inr band)
    show ?thesis
    proof (cases "write_band band (iwave + j - nlo) Rd1")
      case (Inl e2)
      then have "e = e2" using Cons.prems b by simp
      then show ?thesis using write_band_error[OF Inl] by simp
    next
      case (Inr Rd1')
      then have "fill_bands Rx ndiag iwave nlo js Rd1' = Inl e" using Cons.prems b by simp
      then show ?thesis by (rule Cons.IH)
    qed
  qed
qed

lemma fill_resolution_error:
  "fill_resolution R nw ndiag iwave nlo nhi speclo specmin ispecs Rd = Inl e \<Longrightarrow>
   e \<noteq> linear_grid_error"
proof (induction ispecs arbitrary: Rd)
  case Nil
  then show ?case by simp
next
  case (Cons ispec rest)
  let ?a = "nw * (ispec - speclo)" and ?b = "nw * (ispec - speclo + 1)"
  let ?k = "nat (ispec - specmin)"
  let ?fb = "fill_bands (map (py_slice ?a ?b) (py_slice ?a ?b R)) ndiag iwave nlo
               [nlo..nw - nhi - 1] (Rd ! ?k)"
  show ?case
  proof (cases ?fb)
    case (Inl e1)
    then have "e = e1" using Cons.prems by (simp add: Let_def)
    then show ?thesis using fill_bands_error[OF Inl] by simp
  next
    case (Inr Rd1)
    then have "fill_resolution R nw ndiag iwave nlo nhi speclo specmin rest (Rd[?k := Rd1])
                 = Inl e"
      using Cons.prems by (simp add: Let_def)
    then show ?thesis by (rule Cons.IH)
  qed
qed

lemma ex2d_stitch_error:
  assumes "ex2d_stitch engine specmin nspec nwave wavesize ndiag keep iwave extracted outputs
             = Inl e"
  shows "e \<noteq> linear_grid_error"
proof -
  obtain results nlo nhi nw where ex: "extracted = (results, nlo, nhi, nw)"
    by (cases extracted) auto
  obtain flux ivar Rd where out: "outputs = (flux, ivar, Rd)" by (cases outputs) auto
  show ?thesis
    using assms unfolding ex out ex2d_stitch_def Let_def prod.case
    by (auto split: sum.splits engine.splits
             dest: bool_index_error assign_columns_error fill_resolution_error)
qed

lemma ex2d_patch_error:
  assumes "ex2d_patch lsqr eigh img ivar psf specmin nspec wavelengths xyrange regularize ndecorr
             = Inl e"
    and "\<And>m y e'. lsqr m y = Inl e' \<Longrightarrow> e' \<noteq> linear_grid_error"
  shows "e \<noteq> linear_grid_error"
  using assms unfolding ex2d_patch_def Let_def
  by (auto simp: linear_grid_error_def split: sum.splits if_splits
           dest: np_reshape_error reshape2_error)

lemma ex2d_patch_matrix_error:
  assumes "ex2d_patch_matrix solve eigh img ivar psf specmin nspec wavelengths xyrange regularize
             ndecorr = Inl e"
    and "\<And>m y e'. solve m y = Inl e' \<Longrightarrow> e' \<noteq> linear_grid_error"
  shows "e \<noteq> linear_grid_error"
  using assms unfolding ex2d_patch_matrix_def Let_def
  by (auto simp: linear_grid_error_def split: sum.splits if_splits prod.splits
           dest: regularized_system_error reshape2_error)


lemma ex2d_extract_error:
  assumes a: "ex2d_extract engine solve eigh img imageivar psf specmin nspec wavelengths xyrange
             regularize ndecorr wavesize dw ndiag iwave = Inl e"
    and s: "\<And>m y e'. solve m y = Inl e' \<Longrightarrow> e' \<noteq> linear_grid_error"
  shows "e \<noteq> linear_grid_error"
proof -
  define wlo where "wlo = wavelengths ! nat iwave"
  define whi where "whi = (if iwave + wavesize < int (length wavelengths)
                           then wavelengths ! nat (iwave + wavesize) else last wavelengths)"
  obtain xlo xhi ylo yhi where xy: "xyrange_of psf (specmin, specmin + nspec) (wlo, whi)
                                      = (xlo, xhi, ylo, yhi)"
    by (cases "xyrange_of psf (specmin, specmin + nspec) (wlo, whi)") auto
  obtain y0 y1 x0 x1 where sub: "(case xyrange of
               None \<Rightarrow> (ylo, yhi, xlo, xhi)
             | Some (xmin, xmax, ymin, ymax) \<Rightarrow> (ylo - ymin, yhi - ymin, xlo - xmin, xhi - xmin))
             = (y0, y1, x0, x1)"
    by (cases "(case xyrange of
               None \<Rightarrow> (ylo, yhi, xlo, xhi)
             | Some (xmin, xmax, ymin, ymax) \<Rightarrow> (ylo - ymin, yhi - ymin, xlo - xmin, xhi - xmin))")
       auto
  obtain ny nx where sh: "pix_shape psf specmin wlo = (ny, nx)"
    by (cases "pix_shape psf specmin wlo") auto
  let ?tlo = "int_trunc_div (wlo - wavelength psf specmin (ylo - int ny + 2)) dw"
  let ?thi = "int_trunc_div (wavelength psf specmin (yhi + int ny - 2) - whi) dw"
  have unf: "ex2d_extract engine solve eigh img imageivar psf specmin nspec wavelengths xyrange
             regularize ndecorr wavesize dw ndiag iwave =
        (case ?tlo of
           Inl e \<Rightarrow> Inl e
         | Inr tlo \<Rightarrow>
         (case ?thi of
           Inl e \<Rightarrow> Inl e
         | Inr thi \<Rightarrow>
             let nlo = max (tlo - 1) ndiag;
                 nhi = max (thi - 1) ndiag;
                 ww = np_arange (wlo - real_of_int nlo * dw)
                        (whi + (real_of_int nhi + 0.5) * dw) dw;
                 nw = int (length ww)
             in case (case engine of
                        Iterative \<Rightarrow>
                          ex2d_patch solve eigh (map (py_slice x0 x1) (py_slice y0 y1 img))
                            (map (py_slice x0 x1) (py_slice y0 y1 imageivar)) psf specmin
                            (specmin + nspec - specmin) ww (xlo, xhi, ylo, yhi) 0 False
                      | Direct \<Rightarrow>
                          ex2d_patch_matrix solve eigh (map (py_slice x0 x1) (py_slice y0 y1 img))
                            (map (py_slice x0 x1) (py_slice y0 y1 imageivar)) psf specmin
                            (specmin + nspec - specmin) ww (Some (xlo, xhi, ylo, yhi))
                            regularize ndecorr) of
                  Inl e \<Rightarrow> Inl e
                | Inr results \<Rightarrow> Inr (results, nlo, nhi, nw)))"
    unfolding ex2d_extract_def Let_def wlo_def[symmetric] whi_def[symmetric] xy prod.case sub sh
    by (rule refl)
  show ?thesis
  proof (cases ?tlo)
    case (Inl e1)
    then have "e = e1" using a unfolding unf by simp
    then show ?thesis using int_trunc_div_error[OF Inl] by simp
  next
    case tlo: (Inr tlo)
    show ?thesis
    proof (cases ?thi)
      case (Inl e2)
      then have "e = e2" using a tlo unfolding unf by simp
      then show ?thesis using int_trunc_div_error[OF Inl] by simp
    next
      case thi: (Inr thi)
      show ?thesis
      proof (cases engine)
        case Iterative
        then show ?thesis
          using a tlo thi unfolding unf
          by (auto simp: Let_def split: sum.splits dest: ex2d_patch_error[OF _ s])
      next
        case Direct
        then show ?thesis
          using a tlo thi unfolding unf
          by (auto simp: Let_def split: sum.splits dest: ex2d_patch_matrix_error[OF _ s])
      qed
    qed
  qed
qed

lemma ex2d_patch_step_error:
  assumes a: "ex2d_patch_step engine solve eigh img imageivar psf specmin nspec wavelengths
                xyrange regularize ndecorr wavesize dw ndiag keep iwave outputs = Inl e"
    and s: "\<And>m y e'. solve m y = Inl e' \<Longrightarrow> e' \<noteq> linear_grid_error"
  shows "e \<noteq> linear_grid_error"
proof (cases "ex2d_extract engine solve eigh img imageivar psf specmin nspec wavelengths xyrange
                regularize ndecorr wavesize dw ndiag iwave")
  case (Inl e1)
  then have "e = e1" using a by (simp add: ex2d_patch_step_def)
  then show ?thesis using ex2d_extract_error[OF Inl s] by simp
next
  case (Inr ext)
  then have "ex2d_stitch engine specmin nspec (length wavelengths) wavesize ndiag keep iwave
               ext outputs = Inl e"
    using a by (simp add: ex2d_patch_step_def)
  then show ?thesis by (rule ex2d_stitch_error)
qed

lemma run_patches_error:
  assumes "\<And>iwave s e'. step iwave s = Inl e' \<Longrightarrow> e' \<noteq> linear_grid_error"
  shows "run_patches step iwaves s = Inl e \<Longrightarrow> e \<noteq> linear_grid_error"
proof (induction iwaves arbitrary: s)
  case Nil
  then show ?case by simp
next
  case (Cons iwave rest)
  show ?case
  proof (cases "step iwave s")
    case (Inl e1)
    then have "e = e1" using Cons.prems by simp
    then show ?thesis using assms[OF Inl] by simp
  next
    case (Inr s')
    then have "run_patches step rest s' = Inl e" using Cons.prems by simp
    then show ?thesis by (rule Cons.IH)
  qed
qed

lemma ex2d_error_after_grid_step:
  assumes g: "ex2d_grid_step wavelengths = Inr dw"
    and s: "\<And>m y e'. solve m y = Inl e' \<Longrightarrow> e' \<noteq> linear_grid_error"
    and a: "ex2d engine solve eigh img imageivar psf specmin nspec wavelengths xyrange
               regularize ndecorr bundlesize nsubbundles wavesize = Inl e"
  shows "e \<noteq> linear_grid_error"
proof (cases "nspec < 0")
  case True
  then have "e = ValueError ''negative dimensions are not allowed''"
    using a g by (simp add: ex2d_def)
  then show ?thesis by (simp add: linear_grid_error_def)
next
  case False
  let ?nd = "ndiag_loop psf dw
               (List.product [specmin, specmin + nspec div 2, specmin + nspec - 1]
                  [wmin psf, 0.5 * (wmin psf + wmax psf), wmax psf]) 0"
  show ?thesis
  proof (cases ?nd)
    case (Inl e1)
    then have "e = e1" using a g False by (simp add: ex2d_def)
    then show ?thesis using ndiag_loop_error[OF Inl] by simp
  next
    case nd: (Inr ndiag0)
    define ndiag where "ndiag = min ndiag0
         (min (int (fst (pix_shape psf 0 ((wmin_all psf + wmax_all psf) / 2)) div 2))
              (int (snd (pix_shape psf 0 ((wmin_all psf + wmax_all psf) / 2)) div 2)))"
    define s0 where "s0 = (replicate (nat nspec) (replicate (length wavelengths) (Fin 0)),
         replicate (nat nspec) (replicate (length wavelengths) (Fin 0)),
         replicate (nat nspec)
           (replicate (nat (2 * ndiag + 1)) (replicate (length wavelengths) (Fin 0))))"
    let ?step = "ex2d_patch_step engine solve eigh img imageivar psf specmin nspec wavelengths
                   xyrange regularize ndecorr wavesize dw ndiag (replicate 25 True)"
    show ?thesis
    proof (cases "py_range (int (length wavelengths)) wavesize")
      case (Inl e2)
      then have "e = e2" using a g False nd by (simp add: ex2d_def)
      then show ?thesis using py_range_error[OF Inl] by simp
    next
      case pr: (Inr iwaves)
      show ?thesis
      proof (cases "run_patches ?step iwaves s0")
        case (Inl e3)
        then have "e = e3"
          using a g False nd pr unfolding ex2d_def Let_def ndiag_def s0_def by simp
        moreover have "e3 \<noteq> linear_grid_error"
        proof (rule run_patches_error[of ?step iwaves s0 e3])
          show "e' \<noteq> linear_grid_error" if "?step iwave st = Inl e'" for iwave st e'
            using that s by (rule ex2d_patch_step_error)
          show "run_patches ?step iwaves s0 = Inl e3" by (rule Inl)
        qed
        ultimately show ?thesis by simp
      next
        case (Inr s1)
        obtain flux1 ivar1 Rd1 where s1: "s1 = (flux1, ivar1, Rd1)" by (cases s1) auto
        have "e = UnboundLocalError ''local variable deltat referenced before assignment''"
          using a g False nd pr Inr s1 unfolding ex2d_def Let_def ndiag_def s0_def
          by (simp split: if_splits)
        then show ?thesis by (simp add: linear_grid_error_def)
      qed
    qed
  qed
qed

lemma np_allclose_iff:
  "np_allclose a bs = (\<forall>b\<in>set bs. \<bar>a - b\<bar> \<le> 1 / 10 ^ 8 + 1 / 10 ^ 5 * \<bar>b\<bar>)"
  by (simp add: np_allclose_def list_all_iff)

lemma grid_tolerance_outside:
  assumes "(1 / 10 ^ 8 + 1 / 10 ^ 5 * \<bar>d\<bar>) * (1 + 1 / 10 ^ 6) < \<bar>a - d\<bar>"
  shows "\<not> \<bar>a - d\<bar> \<le> 1 / 10 ^ 8 + 1 / 10 ^ 5 * \<bar>d :: real\<bar>"
proof -
  have "0 \<le> 1 / 10 ^ 8 + 1 / 10 ^ 5 * \<bar>d\<bar>" by simp
  then have "1 / 10 ^ 8 + 1 / 10 ^ 5 * \<bar>d\<bar> \<le> (1 / 10 ^ 8 + 1 / 10 ^ 5 * \<bar>d\<bar>) * (1 + 1 / 10 ^ 6)"
    by (simp add: algebra_simps)
  then show ?thesis using assms by linarith
qed

lemma grid_tolerance_inside:
  assumes "\<bar>a - d\<bar> * (1 + 1 / 10 ^ 6) \<le> 1 / 10 ^ 8 + 1 / 10 ^ 5 * \<bar>d :: real\<bar>"
  shows "\<bar>a - d\<bar> \<le> 1 / 10 ^ 8 + 1 / 10 ^ 5 * \<bar>d\<bar>"
proof -
  have "\<bar>a - d\<bar> \<le> \<bar>a - d\<bar> * (1 + 1 / 10 ^ 6)" by (simp add: algebra_simps)
  then show ?thesis using assms by linarith
qed

text \<open>
  Claim C6, as the code has it. The check of the grid is \<^verbatim>\<open>np.allclose\<close> with its
  default tolerances: a step \<open>d\<close> passes when it differs from the first step \<open>dw\<close> by at
  most \<open>10\<^sup>-\<^sup>8 + 10\<^sup>-\<^sup>5 |d|\<close>. The comparison is evaluated here in exact arithmetic, so
  the statement leaves a relative margin of \<open>10\<^sup>-\<^sup>6\<close> around the tolerance, within which
  the rounding of the 64-bit operations decides. For a grid of at least two wavelengths:
  when some step is outside the tolerance, the check raises the ValueError and so does
  \<^verbatim>\<open>ex2d\<close>, whatever its other arguments; when every step is within the tolerance, in
  particular on a grid whose steps are all equal, the check gives the step \<open>dw\<close> and
  \<^verbatim>\<open>ex2d\<close> does not raise that error (the solver, a parameter here, not raising it
  either).
\<close>

theorem ex2d_grid_check:
  assumes "2 \<le> length wavelengths"
  shows "((\<exists>d\<in>set (np_diff wavelengths).
             (1 / 10 ^ 8 + 1 / 10 ^ 5 * \<bar>d\<bar>) * (1 + 1 / 10 ^ 6)
               < \<bar>wavelengths ! 1 - wavelengths ! 0 - d\<bar>) \<longrightarrow>
          ex2d_grid_step wavelengths = Inl linear_grid_error \<and>
          ex2d engine solve eigh img imageivar psf specmin nspec wavelengths xyrange regularize
            ndecorr bundlesize nsubbundles wavesize = Inl linear_grid_error) \<and>
         ((\<forall>d\<in>set (np_diff wavelengths).
             \<bar>wavelengths ! 1 - wavelengths ! 0 - d\<bar> * (1 + 1 / 10 ^ 6)
               \<le> 1 / 10 ^ 8 + 1 / 10 ^ 5 * \<bar>d\<bar>) \<or>
          (\<forall>d\<in>set (np_diff wavelengths). d = wavelengths ! 1 - wavelengths ! 0) \<longrightarrow>
          ex2d_grid_step wavelengths = Inr (wavelengths ! 1 - wavelengths ! 0) \<and>
          ((\<forall>m y e. solve m y = Inl e \<longrightarrow> e \<noteq> linear_grid_error) \<longrightarrow>
           ex2d engine solve eigh img imageivar psf specmin nspec wavelengths xyrange regularize
             ndecorr bundlesize nsubbundles wavesize \<noteq> Inl linear_grid_error))"
proof (intro conjI impI)
  let ?dw = "wavelengths ! 1 - wavelengths ! 0"
  assume "\<exists>d\<in>set (np_diff wavelengths).
             (1 / 10 ^ 8 + 1 / 10 ^ 5 * \<bar>d\<bar>) * (1 + 1 / 10 ^ 6) < \<bar>?dw - d\<bar>"
  then have "\<not> np_allclose ?dw (np_diff wavelengths)"
    using grid_tolerance_outside unfolding np_allclose_iff by blast
  then show g: "ex2d_grid_step wavelengths = Inl linear_grid_error"
    using assms by (simp add: ex2d_grid_step_def)
  then show "ex2d engine solve eigh img imageivar psf specmin nspec wavelengths xyrange regularize
            ndecorr bundlesize nsubbundles wavesize = Inl linear_grid_error"
    by (simp add: ex2d_def)
next
  let ?dw = "wavelengths ! 1 - wavelengths ! 0"
  assume h: "(\<forall>d\<in>set (np_diff wavelengths).
             \<bar>?dw - d\<bar> * (1 + 1 / 10 ^ 6) \<le> 1 / 10 ^ 8 + 1 / 10 ^ 5 * \<bar>d\<bar>) \<or>
          (\<forall>d\<in>set (np_diff wavelengths). d = ?dw)"
  have "np_allclose ?dw (np_diff wavelengths)"
    using h grid_tolerance_inside unfolding np_allclose_iff by auto
  then show g: "ex2d_grid_step wavelengths = Inr ?dw"
    using assms by (simp add: ex2d_grid_step_def)
  assume s: "\<forall>m y e. solve m y = Inl e \<longrightarrow> e \<noteq> linear_grid_error"
  show "ex2d engine solve eigh img imageivar psf specmin nspec wavelengths xyrange regularize
             ndecorr bundlesize nsubbundles wavesize \<noteq> Inl linear_grid_error"
    using ex2d_error_after_grid_step[OF g, of solve] s by blast
qed

text \<open>
  The theorem at the grid \<open>(0, 1, 3)\<close>, whose second step is 2, and at the uniform grid
  \<open>(5000, 5001, 5002)\<close>.
\<close>

theorem ex2d_grid_check_witness:
  "2 \<le> length [0, 1, 3 :: real] \<and> np_diff [0, 1, 3] = [1, 2] \<and>
   ex2d Direct solve_1x1 eigh_1x1 [[1]] [[9]] one_pixel_psf 0 25 [0, 1, 3] None 0 False 25 1 50 =
     Inl linear_grid_error \<and>
   np_diff [5000, 5001, 5002] = [1, 1] \<and>
   ex2d_grid_step [5000, 5001, 5002] = Inr 1 \<and>
   ex2d Direct solve_1x1 eigh_1x1 [[1]] [[9]] one_pixel_psf 0 25 [5000, 5001, 5002] None 0 False
     25 1 50 \<noteq> Inl linear_grid_error"
proof -
  have l1: "2 \<le> length [0, 1, 3 :: real]" by simp
  have d1: "np_diff [0, 1, 3] = [1, 2]" by (simp add: np_diff_def)
  have l2: "2 \<le> length [5000, 5001, 5002 :: real]" by simp
  have d2: "np_diff [5000, 5001, 5002] = [1, 1]" by (simp add: np_diff_def)
  have sv: "\<forall>m y e. solve_1x1 m y = Inl e \<longrightarrow> e \<noteq> linear_grid_error"
    by (simp add: solve_1x1_def)
  have a: "ex2d Direct solve_1x1 eigh_1x1 [[1]] [[9]] one_pixel_psf 0 25 [0, 1, 3] None 0 False
             25 1 50 = Inl linear_grid_error"
    using ex2d_grid_check[OF l1, THEN conjunct1] d1 by simp
  have b: "ex2d_grid_step [5000, 5001, 5002] = Inr 1"
    using ex2d_grid_check[OF l2, THEN conjunct2] d2 by simp
  have c: "ex2d Direct solve_1x1 eigh_1x1 [[1]] [[9]] one_pixel_psf 0 25 [5000, 5001, 5002] None 0
             False 25 1 50 \<noteq> Inl linear_grid_error"
    using ex2d_grid_check[OF l2, where solve = solve_1x1, THEN conjunct2] d2 sv by simp
  show ?thesis by (intro conjI) (rule l1 d1 a d2 b c)+
qed

text \<open>
  The claim has the error raised for every grid whose step is not uniform. The grid
  \<open>(0, 1, 2 + 2\<^sup>-\<^sup>2\<^sup>0)\<close> has the steps 1 and \<open>1 + 2\<^sup>-\<^sup>2\<^sup>0\<close>, which differ by about
  \<open>9.5 * 10\<^sup>-\<^sup>7\<close>, within the tolerance of about \<open>10\<^sup>-\<^sup>5\<close>: the check passes, and the
  iterative-solve \<^verbatim>\<open>ex2d\<close> called with this grid (and no patch to extract) returns.
\<close>

theorem ex2d_accepts_nonuniform_grid:
  "np_diff [0, 1, 2 + 1 / 2 ^ 20] = [1, 1 + 1 / 2 ^ 20] \<and>
   (1 + 1 / 2 ^ 20 :: real) \<noteq> 1 \<and>
   ex2d_grid_step [0, 1, 2 + 1 / 2 ^ 20] = Inr 1 \<and>
   ex2d Iterative solve_1x1 eigh_1x1 [[1]] [[9]] one_pixel_psf 0 3 [0, 1, 2 + 1 / 2 ^ 20] None 0
     False 25 1 (- 1) =
   Inr (replicate 3 [Fin 0, Fin 0, Fin 0], replicate 3 [Fin 0, Fin 0, Fin 0],
        replicate 3 [[Fin 0, Fin 0, Fin 0]])"
proof -
  have d: "np_diff [0, 1, 2 + 1 / 2 ^ 20] = [1, 1 + 1 / 2 ^ 20]"
    by (simp add: np_diff_def)
  have g: "ex2d_grid_step [0, 1, 2 + 1 / 2 ^ 20] = Inr 1"
    by (simp add: ex2d_grid_step_def np_allclose_def np_diff_def)
  have r: "ex2d Iterative solve_1x1 eigh_1x1 [[1]] [[9]] one_pixel_psf 0 3
             [0, 1, 2 + 1 / 2 ^ 20] None 0 False 25 1 (- 1) =
           Inr (replicate 3 [Fin 0, Fin 0, Fin 0], replicate 3 [Fin 0, Fin 0, Fin 0],
                replicate 3 [[Fin 0, Fin 0, Fin 0]])"
    by (simp add: ex2d_def ex2d_grid_step_def np_allclose_def np_diff_def one_pixel_psf_def
          int_round_div_def round_half_even_def
          py_range_def np_gradient_def upt_rec[of 0 3] upt_rec[of 1 3] upt_rec[of 2 3] Let_def)
  show ?thesis by (intro conjI) (rule d g r | simp)+
qed

end
